theory Spec2Isabelle
  imports Complex_Main "HOL-Library.Char_ord" "HOL-Library.List_Lexorder"
begin

section \<open>Values, columns and frames\<close>

text \<open>
  Python values met in an Observation: \<open>str\<close>, \<open>bool\<close>, \<open>int\<close> and \<open>float\<close>.
  Floats are idealised as reals; no result below depends on a rounding of float arithmetic.
  Strings are ordered by code point, lexicographically, as Python's \<open>str\<close> is.
\<close>

datatype cell = S string | B bool | I int | F real

text \<open>A pandas column with its dtype: \<open>object\<close> (strings), \<open>bool\<close>, \<open>int64\<close>, \<open>float64\<close>.\<close>

datatype column = ObjCol "string list" | BoolCol "bool list" | IntCol "int list" | FloatCol "real list"

text \<open>A DataFrame: its columns in order, each with its name.\<close>

type_synonym frame = "(string \<times> column) list"

datatype error =
    ValueError string
  | KeyError string
  | IndexError string
  | NotFittedError string
  | TypeError string
  | HTTPException nat string

fun error_str :: "error \<Rightarrow> string" where
  "error_str (ValueError m) = m"
| "error_str (KeyError m) = m"
| "error_str (IndexError m) = m"
| "error_str (NotFittedError m) = m"
| "error_str (TypeError m) = m"
| "error_str (HTTPException c m) = m"

text \<open>Assignment \<open>d[k] = v\<close> on a dict or a DataFrame: an existing key keeps its place,
  a new key goes to the end.\<close>

fun setitem :: "('k \<times> 'v) list \<Rightarrow> 'k \<Rightarrow> 'v \<Rightarrow> ('k \<times> 'v) list" where
  "setitem [] k v = [(k, v)]"
| "setitem ((k', v') # al) k v = (if k' = k then (k, v) # al else (k', v') # setitem al k v)"

definition columns :: "frame \<Rightarrow> string list" where
  "columns df = map fst df"

text \<open>\<open>df.drop(columns=cs)\<close>.\<close>

definition drop_columns :: "frame \<Rightarrow> string list \<Rightarrow> frame" where
  "drop_columns df cs = filter (\<lambda>(c, col). c \<notin> set cs) df"

text \<open>\<open>df[cols]\<close>: the named columns in the order asked; a missing name is a KeyError.\<close>

definition select_columns :: "frame \<Rightarrow> string list \<Rightarrow> error + frame" where
  "select_columns df cols =
     (if \<forall>c \<in> set cols. map_of df c \<noteq> None
      then Inr (map (\<lambda>c. (c, the (map_of df c))) cols)
      else Inl (KeyError ''not in index''))"

text \<open>\<open>X.select_dtypes(include=['object', 'bool']).columns\<close>.\<close>

fun is_categorical :: "column \<Rightarrow> bool" where
  "is_categorical (ObjCol xs) = True"
| "is_categorical (BoolCol bs) = True"
| "is_categorical (IntCol ns) = False"
| "is_categorical (FloatCol fs) = False"

definition select_dtypes_object_bool :: "frame \<Rightarrow> string list" where
  "select_dtypes_object_bool X = map fst (filter (\<lambda>(c, col). is_categorical col) X)"

text \<open>\<open>pd.DataFrame([d])\<close>: one row, one column for each key, the dtype that of the value.\<close>

fun column_of_cell :: "cell \<Rightarrow> column" where
  "column_of_cell (S s) = ObjCol [s]"
| "column_of_cell (B b) = BoolCol [b]"
| "column_of_cell (I n) = IntCol [n]"
| "column_of_cell (F x) = FloatCol [x]"

definition DataFrame :: "(string \<times> cell) list \<Rightarrow> frame" where
  "DataFrame d = map (\<lambda>(k, v). (k, column_of_cell v)) d"

fun column_cells :: "column \<Rightarrow> cell list" where
  "column_cells (ObjCol xs) = map S xs"
| "column_cells (BoolCol bs) = map B bs"
| "column_cells (IntCol ns) = map I ns"
| "column_cells (FloatCol fs) = map F fs"

subsection \<open>Conversion to \<open>str\<close>\<close>

definition digit_char :: "nat \<Rightarrow> char" where
  "digit_char d = char_of (48 + d)"

fun str_of_nat :: "nat \<Rightarrow> string" where
  "str_of_nat n = (if n < 10 then [digit_char n] else str_of_nat (n div 10) @ [digit_char (n mod 10)])"

declare str_of_nat.simps [simp del]

definition str_of_int :: "int \<Rightarrow> string" where
  "str_of_int i = (if i < 0 then CHR ''-'' # str_of_nat (nat (- i)) else str_of_nat (nat i))"

definition str_of_bool :: "bool \<Rightarrow> string" where
  "str_of_bool b = (if b then ''True'' else ''False'')"

text \<open>\<open>series.astype(str)\<close>. The text Python prints for a float is a parameter,
  \<open>float_repr\<close>.\<close>

fun astype_str :: "(real \<Rightarrow> string) \<Rightarrow> column \<Rightarrow> string list" where
  "astype_str float_repr (ObjCol xs) = xs"
| "astype_str float_repr (BoolCol bs) = map str_of_bool bs"
| "astype_str float_repr (IntCol ns) = map str_of_int ns"
| "astype_str float_repr (FloatCol fs) = map float_repr fs"

section \<open>The label encoder\<close>

text \<open>
  Modelled from the spec: scikit-learn's \<open>LabelEncoder\<close> is a library class, not part of
  the sources. The spec gives it the standard label-encoding semantics: fitting assigns the
  integers \<open>0..k-1\<close> to the sorted distinct training values; transforming a value outside
  the vocabulary fails (a \<open>ValueError\<close>); the reverse lookup reads the vocabulary at the
  index.
\<close>

record LabelEncoder =
  le_classes :: "string list"

fun index_of :: "'a list \<Rightarrow> 'a \<Rightarrow> nat" where
  "index_of [] x = 0"
| "index_of (y # ys) x = (if y = x then 0 else Suc (index_of ys x))"

definition le_fit :: "string list \<Rightarrow> LabelEncoder" where
  "le_fit ys = \<lparr>le_classes = sort (remdups ys)\<rparr>"

definition le_code :: "LabelEncoder \<Rightarrow> string \<Rightarrow> int" where
  "le_code le y = int (index_of (le_classes le) y)"

definition le_transform :: "LabelEncoder \<Rightarrow> string list \<Rightarrow> error + int list" where
  "le_transform le ys =
     (if \<forall>y \<in> set ys. y \<in> set (le_classes le)
      then Inr (map (le_code le) ys)
      else Inl (ValueError ''y contains previously unseen labels''))"

definition le_fit_transform :: "string list \<Rightarrow> LabelEncoder \<times> int list" where
  "le_fit_transform ys = (let le = le_fit ys in (le, map (le_code le) ys))"

definition le_inverse_transform :: "LabelEncoder \<Rightarrow> int list \<Rightarrow> error + string list" where
  "le_inverse_transform le cs =
     (if \<forall>c \<in> set cs. 0 \<le> c \<and> c < int (length (le_classes le))
      then Inr (map (\<lambda>c. le_classes le ! nat c) cs)
      else Inl (ValueError ''y contains previously unseen labels''))"

section \<open>The libraries the pipeline calls\<close>

text \<open>
  The numeric scaler, the train/test split, the classifier and the text of a float come
  from libraries. They are parameters of the model, collected in one record: \<open>'s\<close> is a
  scaler with its statistics, \<open>'m\<close> a fitted classifier, \<open>'k\<close> the evaluation metrics. A
  matrix is the list of its rows. The stratified split reads the number of rows and the
  labels, and answers the row numbers of the train part and of the test part.
\<close>

type_synonym matrix = "real list list"

record ('s, 'm, 'k) libs =
  float_repr :: "real \<Rightarrow> string"
  StandardScaler :: "'s"
  scaler_fit :: "'s \<Rightarrow> frame \<Rightarrow> error + 's"
  scaler_transform :: "'s \<Rightarrow> frame \<Rightarrow> error + matrix"
  train_test_split :: "nat \<Rightarrow> cell list option \<Rightarrow> error + (nat list \<times> nat list)"
  grid_search_fit :: "matrix \<Rightarrow> cell list option \<Rightarrow> error + 'm"
  evaluate_metrics :: "'m \<Rightarrow> matrix \<Rightarrow> cell list option \<Rightarrow> error + 'k"
  clf_predict :: "'m \<Rightarrow> matrix \<Rightarrow> error + string list"
  clf_predict_proba :: "'m \<Rightarrow> matrix \<Rightarrow> error + matrix"
  clf_classes :: "'m \<Rightarrow> string list"
  now_isoformat :: "string"

section \<open>Trainer: \<open>train.py\<close>\<close>

record ('s, 'm) PlantDiseaseModel =
  model :: "'m option"
  label_encoders :: "(string \<times> LabelEncoder) list"
  scaler :: "'s"
  feature_columns :: "string list option"
  target_column :: "string"

definition init_model :: "('s, 'm, 'k) libs \<Rightarrow> ('s, 'm) PlantDiseaseModel" where
  "init_model env =
     \<lparr>model = None, label_encoders = [], scaler = StandardScaler env,
      feature_columns = None, target_column = ''label_disease''\<rparr>"

definition drop_cols :: "string list" where
  "drop_cols = [''sample_id'', ''timestamp'', ''other_notes'', ''severity'']"

text \<open>\<open>X[col].astype(str).apply(lambda x: le.transform([x])[0] if x in le.classes_ else -1)\<close>:
  the guard keeps \<open>transform\<close> from failing, so the code of a known value is read directly.\<close>

definition apply_encoder :: "(real \<Rightarrow> string) \<Rightarrow> LabelEncoder \<Rightarrow> column \<Rightarrow> column" where
  "apply_encoder fr le values =
     IntCol (map (\<lambda>x. if x \<in> set (le_classes le) then le_code le x else - 1)
               (astype_str fr values))"

text \<open>One turn of the loop \<open>for col in categorical_cols\<close> of \<open>preprocess\<close>. The name
  \<open>col\<close> is read from \<open>X.columns\<close>, so \<open>X[col]\<close> is always there.\<close>

definition encode_column ::
  "('s, 'm, 'k) libs \<Rightarrow> bool \<Rightarrow> string \<Rightarrow>
   ('s, 'm) PlantDiseaseModel \<times> frame \<Rightarrow> ('s, 'm) PlantDiseaseModel \<times> frame" where
  "encode_column env fit col = (\<lambda>(self, X).
     (case map_of X col of
        None \<Rightarrow> (self, X)
      | Some values \<Rightarrow>
          if fit then
            (let (le, codes) = le_fit_transform (astype_str (float_repr env) values)
             in (self\<lparr>label_encoders := setitem (label_encoders self) col le\<rparr>,
                 setitem X col (IntCol codes)))
          else
            (case map_of (label_encoders self) col of
               Some le \<Rightarrow> (self, setitem X col (apply_encoder (float_repr env) le values))
             | None \<Rightarrow> (self, X))))"

text \<open>\<open>preprocess\<close> up to the scaling step: the columns kept, the target, and the loop
  over the categorical columns.\<close>

definition split_target ::
  "('s, 'm) PlantDiseaseModel \<Rightarrow> frame \<Rightarrow> frame \<times> column option" where
  "split_target self df =
     (let feature_df = drop_columns df (filter (\<lambda>col. col \<in> set (columns df)) drop_cols)
      in if target_column self \<in> set (columns feature_df)
         then (drop_columns feature_df [target_column self], map_of feature_df (target_column self))
         else (feature_df, None))"

definition encode_features ::
  "('s, 'm, 'k) libs \<Rightarrow> ('s, 'm) PlantDiseaseModel \<Rightarrow> frame \<Rightarrow> bool \<Rightarrow>
   ('s, 'm) PlantDiseaseModel \<times> frame" where
  "encode_features env self X fit =
     (let self1 = (if fit then self\<lparr>feature_columns := Some (columns X)\<rparr> else self);
          categorical_cols = select_dtypes_object_bool X
      in fold (encode_column env fit) categorical_cols (self1, X))"

definition preprocess ::
  "('s, 'm, 'k) libs \<Rightarrow> ('s, 'm) PlantDiseaseModel \<Rightarrow> frame \<Rightarrow> bool \<Rightarrow>
   error + (('s, 'm) PlantDiseaseModel \<times> (string list \<times> matrix) \<times> column option)" where
  "preprocess env self df fit =
     (let (X0, y) = split_target self df;
          (self2, X) = encode_features env self X0 fit
      in if fit then
           (case scaler_fit env (scaler self2) X of
              Inl e \<Rightarrow> Inl e
            | Inr sc \<Rightarrow>
                (case scaler_transform env sc X of
                   Inl e \<Rightarrow> Inl e
                 | Inr X_scaled \<Rightarrow> Inr (self2\<lparr>scaler := sc\<rparr>, (columns X, X_scaled), y)))
         else
           (case scaler_transform env (scaler self2) X of
              Inl e \<Rightarrow> Inl e
            | Inr X_scaled \<Rightarrow> Inr (self2, (columns X, X_scaled), y)))"

definition bind_err :: "error + 'a \<Rightarrow> ('a \<Rightarrow> error + 'b) \<Rightarrow> error + 'b" where
  "bind_err r f = (case r of Inl e \<Rightarrow> Inl e | Inr v \<Rightarrow> f v)"

text \<open>\<open>train\<close>: the grid search stores its best estimator.\<close>

definition train ::
  "('s, 'm, 'k) libs \<Rightarrow> ('s, 'm) PlantDiseaseModel \<Rightarrow> matrix \<Rightarrow> cell list option \<Rightarrow>
   error + ('s, 'm) PlantDiseaseModel" where
  "train env self X_train y_train =
     bind_err (grid_search_fit env X_train y_train) (\<lambda>best. Inr (self\<lparr>model := Some best\<rparr>))"

definition evaluate ::
  "('s, 'm, 'k) libs \<Rightarrow> ('s, 'm) PlantDiseaseModel \<Rightarrow> matrix \<Rightarrow> cell list option \<Rightarrow> error + 'k" where
  "evaluate env self X_test y_test =
     (case model self of
        None \<Rightarrow> Inl (ValueError ''model is None'')
      | Some m \<Rightarrow> evaluate_metrics env m X_test y_test)"

text \<open>The artifact \<open>save_model\<close> writes and the server loads.\<close>

record ('s, 'm) model_data =
  md_model :: "'m"
  md_label_encoders :: "(string \<times> LabelEncoder) list"
  md_scaler :: "'s"
  md_feature_columns :: "string list"

definition save_model :: "('s, 'm) PlantDiseaseModel \<Rightarrow> ('s, 'm) model_data option" where
  "save_model self =
     (case (model self, feature_columns self) of
        (Some m, Some cols) \<Rightarrow>
          Some \<lparr>md_model = m, md_label_encoders = label_encoders self,
                md_scaler = scaler self, md_feature_columns = cols\<rparr>
      | _ \<Rightarrow> None)"

definition load_model ::
  "('s, 'm) PlantDiseaseModel \<Rightarrow> ('s, 'm) model_data \<Rightarrow> ('s, 'm) PlantDiseaseModel" where
  "load_model self data =
     self\<lparr>model := Some (md_model data), label_encoders := md_label_encoders data,
          scaler := md_scaler data, feature_columns := Some (md_feature_columns data)\<rparr>"

text \<open>The rows of a matrix, or of the labels, at the indices the split returns.\<close>

definition take_rows :: "'a list \<Rightarrow> nat list \<Rightarrow> 'a list" where
  "take_rows xs idx = map (\<lambda>i. xs ! i) idx"

record ('s, 'm, 'k) training_run =
  fitted :: "('s, 'm) PlantDiseaseModel"
  metrics :: "'k"
  train_samples :: nat
  test_samples :: nat

text \<open>\<open>main\<close>: preprocess the whole dataset with \<open>fit=True\<close>, then split, train and
  evaluate. Writing the artifact and the metrics file changes nothing of the run.\<close>

definition main ::
  "('s, 'm, 'k) libs \<Rightarrow> frame \<Rightarrow> error + ('s, 'm, 'k) training_run" where
  "main env df =
     bind_err (preprocess env (init_model env) df True) (\<lambda>(self, (cols, X), y).
       let labels = map_option column_cells y in
       bind_err (train_test_split env (length X) labels) (\<lambda>(train_idx, test_idx).
         let X_train = take_rows X train_idx;
             X_test = take_rows X test_idx;
             y_train = map_option (\<lambda>ys. take_rows ys train_idx) labels;
             y_test = map_option (\<lambda>ys. take_rows ys test_idx) labels
         in bind_err (train env self X_train y_train) (\<lambda>self'.
              bind_err (evaluate env self' X_test y_test) (\<lambda>ms.
                Inr \<lparr>fitted = self', metrics = ms,
                     train_samples = length X_train, test_samples = length X_test\<rparr>))))"

section \<open>Prediction service: \<open>server.py\<close>\<close>

text \<open>The loop \<open>for col in feature_columns: if col not in df.columns: df[col] = 0\<close>.
  The frame has the one row made from the request, so the new column is \<open>[0]\<close>.\<close>

definition ensure_columns :: "string list \<Rightarrow> frame \<Rightarrow> frame" where
  "ensure_columns cols df =
     fold (\<lambda>col df. if col \<notin> set (columns df) then setitem df col (IntCol [0]) else df) cols df"

text \<open>The \<open>try\<close> of the encoding loop: \<open>df[col] = encoder.transform(df[col].astype(str))\<close>,
  and \<open>df[col] = -1\<close> on a \<open>ValueError\<close>, the only error \<open>transform\<close> raises. The frame
  has one row, so the column \<open>-1\<close> is \<open>[-1]\<close>.\<close>

definition transform_or_sentinel :: "(real \<Rightarrow> string) \<Rightarrow> LabelEncoder \<Rightarrow> column \<Rightarrow> column" where
  "transform_or_sentinel fr encoder values =
     (case le_transform encoder (astype_str fr values) of
        Inr codes \<Rightarrow> IntCol codes
      | Inl e \<Rightarrow> IntCol [- 1])"

text \<open>One turn of \<open>for col, encoder in label_encoders.items()\<close>.\<close>

definition encode_with :: "(real \<Rightarrow> string) \<Rightarrow> string \<times> LabelEncoder \<Rightarrow> frame \<Rightarrow> frame" where
  "encode_with fr = (\<lambda>(col, encoder) df.
     if col \<in> set (columns df) then
       (case map_of df col of
          None \<Rightarrow> df
        | Some values \<Rightarrow> setitem df col (transform_or_sentinel fr encoder values))
     else df)"

text \<open>\<open>preprocess_input\<close> up to the scaling step.\<close>

definition select_features :: "(string \<times> cell) list \<Rightarrow> string list \<Rightarrow> error + frame" where
  "select_features input_data cols = select_columns (ensure_columns cols (DataFrame input_data)) cols"

definition encode_input ::
  "('s, 'm, 'k) libs \<Rightarrow> (string \<times> cell) list \<Rightarrow> ('s, 'm) model_data \<Rightarrow> error + frame" where
  "encode_input env input_data md =
     bind_err (select_features input_data (md_feature_columns md)) (\<lambda>df.
       Inr (fold (encode_with (float_repr env)) (md_label_encoders md) df))"

definition preprocess_input ::
  "('s, 'm, 'k) libs \<Rightarrow> (string \<times> cell) list \<Rightarrow> ('s, 'm) model_data \<Rightarrow> error + matrix" where
  "preprocess_input env input_data md =
     bind_err (encode_input env input_data md) (\<lambda>df. scaler_transform env (md_scaler md) df)"

record PredictionInput =
  in_crop_type :: string
  in_plant_age_days :: int
  in_location_region :: string
  in_soil_ph :: real
  in_soil_moisture_pct :: real
  in_ambient_temperature_c :: real
  in_ambient_humidity_pct :: real
  in_leaf_color :: string
  in_lesion_present :: bool
  in_lesion_count :: int
  in_spot_size_mm :: real
  in_nutrient_deficiency_signs :: string

definition model_dump :: "PredictionInput \<Rightarrow> (string \<times> cell) list" where
  "model_dump x =
     [(''crop_type'', S (in_crop_type x)),
      (''plant_age_days'', I (in_plant_age_days x)),
      (''location_region'', S (in_location_region x)),
      (''soil_ph'', F (in_soil_ph x)),
      (''soil_moisture_pct'', F (in_soil_moisture_pct x)),
      (''ambient_temperature_c'', F (in_ambient_temperature_c x)),
      (''ambient_humidity_pct'', F (in_ambient_humidity_pct x)),
      (''leaf_color'', S (in_leaf_color x)),
      (''lesion_present'', B (in_lesion_present x)),
      (''lesion_count'', I (in_lesion_count x)),
      (''spot_size_mm'', F (in_spot_size_mm x)),
      (''nutrient_deficiency_signs'', S (in_nutrient_deficiency_signs x))]"

datatype json = JStr string | JList "json list"

record PredictionResponse =
  prediction :: string
  confidence :: real
  all_probabilities :: "(string \<times> real) list"
  treatment :: "(string \<times> json) list option"
  response_timestamp :: string

definition default_treatment :: "(string \<times> json) list" where
  "default_treatment =
     [(''treatment'', JStr ''No treatment information available.''),
      (''prevention'', JStr ''General preventive measures recommended.''),
      (''chemicals'', JList [])]"

text \<open>\<open>xs[0]\<close> and \<open>max(xs)\<close>, which fail on an empty sequence.\<close>

definition first :: "'a list \<Rightarrow> error + 'a" where
  "first xs = (case xs of [] \<Rightarrow> Inl (IndexError ''index 0 is out of bounds'') | x # _ \<Rightarrow> Inr x)"

definition py_max :: "real list \<Rightarrow> error + real" where
  "py_max xs = (case xs of [] \<Rightarrow> Inl (ValueError ''max() arg is an empty sequence'')
                | x # rest \<Rightarrow> Inr (fold max rest x))"

text \<open>The body of the \<open>try\<close> of \<open>predict_disease\<close>.\<close>

definition predict_body ::
  "('s, 'm, 'k) libs \<Rightarrow> ('s, 'm) model_data \<Rightarrow> (string \<rightharpoonup> (string \<times> json) list) \<Rightarrow>
   PredictionInput \<Rightarrow> error + PredictionResponse" where
  "predict_body env md treatments input_data =
     (let input_dict = model_dump input_data in
      bind_err (preprocess_input env input_dict md) (\<lambda>X.
      bind_err (bind_err (clf_predict env (md_model md) X) first) (\<lambda>pred.
      bind_err (bind_err (clf_predict_proba env (md_model md) X) first) (\<lambda>probabilities.
        let classes = clf_classes env (md_model md);
            prob_dict = fold (\<lambda>(cls, prob) d. setitem d cls prob) (zip classes probabilities) []
        in bind_err (py_max probabilities) (\<lambda>conf.
             let treatment_info = (case treatments pred of Some t \<Rightarrow> t | None \<Rightarrow> default_treatment)
             in Inr \<lparr>prediction = pred, confidence = conf, all_probabilities = prob_dict,
                     treatment = Some treatment_info,
                     response_timestamp = now_isoformat env\<rparr>)))))"

text \<open>\<open>model_data\<close> is \<open>None\<close> when the artifact could not be loaded at start-up.\<close>

definition predict_disease ::
  "('s, 'm, 'k) libs \<Rightarrow> ('s, 'm) model_data option \<Rightarrow> (string \<rightharpoonup> (string \<times> json) list) \<Rightarrow>
   PredictionInput \<Rightarrow> error + PredictionResponse" where
  "predict_disease env model_data treatments input_data =
     (case model_data of
        None \<Rightarrow> Inl (HTTPException 500 ''Model not loaded'')
      | Some md \<Rightarrow>
          (case predict_body env md treatments input_data of
             Inl e \<Rightarrow> Inl (HTTPException 500 (''Prediction failed: '' @ error_str e))
           | Inr response \<Rightarrow> Inr response))"

definition get_diseases ::
  "('s, 'm, 'k) libs \<Rightarrow> ('s, 'm) model_data option \<Rightarrow> error + (string list \<times> nat)" where
  "get_diseases env model_data =
     (case model_data of
        None \<Rightarrow> Inl (HTTPException 500 ''Model not loaded'')
      | Some md \<Rightarrow>
          (let diseases = clf_classes env (md_model md) in Inr (diseases, length diseases)))"

section \<open>Dataset generator: \<open>dataset.py\<close>\<close>

record sample =
  sample_id :: string
  timestamp :: string
  crop_type :: string
  plant_age_days :: int
  location_region :: string
  soil_ph :: real
  soil_moisture_pct :: real
  ambient_temperature_c :: real
  ambient_humidity_pct :: real
  leaf_color :: string
  lesion_present :: bool
  lesion_count :: int
  spot_size_mm :: real
  nutrient_deficiency_signs :: string
  other_notes :: string
  label_disease :: string
  severity :: string

definition CROPS_DISEASES :: "(string \<times> string list) list" where
  "CROPS_DISEASES =
     [(''Tomato'', [''Healthy'', ''Early_Blight'', ''Late_Blight'', ''Leaf_Mold'',
                    ''Septoria_Leaf_Spot'', ''Bacterial_Spot'', ''Yellow_Leaf_Curl_Virus'']),
      (''Potato'', [''Healthy'', ''Early_Blight'', ''Late_Blight'', ''Bacterial_Wilt'']),
      (''Wheat'', [''Healthy'', ''Rust'', ''Powdery_Mildew'', ''Septoria_Tritici_Blotch'']),
      (''Rice'', [''Healthy'', ''Bacterial_Leaf_Blight'', ''Brown_Spot'', ''Leaf_Smut'']),
      (''Corn'', [''Healthy'', ''Northern_Leaf_Blight'', ''Gray_Leaf_Spot'', ''Common_Rust'']),
      (''Cotton'', [''Healthy'', ''Bacterial_Blight'', ''Fusarium_Wilt'', ''Verticillium_Wilt'']),
      (''Soybean'', [''Healthy'', ''Frogeye_Leaf_Spot'', ''Downy_Mildew'', ''Bacterial_Blight'']),
      (''Pepper'', [''Healthy'', ''Bacterial_Spot'', ''Phytophthora_Blight''])]"

definition REGIONS :: "string list" where
  "REGIONS = [''North'', ''South'', ''East'', ''West'', ''Central'', ''Northeast'', ''Northwest'',
              ''Southeast'', ''Southwest'']"

definition LEAF_COLORS_Healthy :: "string list" where
  "LEAF_COLORS_Healthy = [''Dark_Green'', ''Green'']"

definition LEAF_COLORS_Diseased :: "string list" where
  "LEAF_COLORS_Diseased = [''Yellow'', ''Yellow_Green'', ''Brown'', ''Light_Green'', ''Pale_Green'']"

definition NUTRIENT_DEFICIENCY :: "string list" where
  "NUTRIENT_DEFICIENCY = [''None'', ''Nitrogen'', ''Phosphorus'', ''Potassium'', ''Magnesium'',
                          ''Iron'', ''Calcium'']"

definition SEVERITY :: "string list" where
  "SEVERITY = [''Mild'', ''Moderate'', ''Severe'']"

text \<open>
  The random module is a source of draws, taken as input. \<open>random.choice(seq)\<close> with draw
  \<open>k\<close> picks \<open>seq[k mod len(seq)]\<close> (every sequence chosen from here is non-empty);
  \<open>random.randint(a, b)\<close> with draw \<open>k\<close> is \<open>a + k mod (b - a + 1)\<close>;
  \<open>random.uniform(a, b)\<close> with draw \<open>u\<close> from the unit interval is \<open>a + (b - a) * u\<close>.
\<close>

definition choice :: "'a list \<Rightarrow> nat \<Rightarrow> 'a" where
  "choice seq k = seq ! (k mod length seq)"

definition randint :: "int \<Rightarrow> int \<Rightarrow> nat \<Rightarrow> int" where
  "randint a b k = a + int (k mod nat (b - a + 1))"

definition uniform :: "real \<Rightarrow> real \<Rightarrow> real \<Rightarrow> real" where
  "uniform a b u = a + (b - a) * u"

text \<open>\<open>round(x, ndigits)\<close>, to the nearest with ties to even, on the idealised floats.\<close>

definition round_half_even :: "real \<Rightarrow> int" where
  "round_half_even x =
     (let f = \<lfloor>x\<rfloor>; d = x - of_int f
      in if d < 1 / 2 then f else if 1 / 2 < d then f + 1 else if even f then f else f + 1)"

definition py_round :: "real \<Rightarrow> nat \<Rightarrow> real" where
  "py_round x ndigits = of_int (round_half_even (x * 10 ^ ndigits)) / 10 ^ ndigits"

text \<open>The format \<open>{n:06d}\<close> of a non-negative number.\<close>

definition format_06d :: "nat \<Rightarrow> string" where
  "format_06d n = (let s = str_of_nat n in replicate (6 - length s) CHR ''0'' @ s)"

text \<open>The draws of one call of \<open>generate_sample\<close>, and the clock: \<open>isoformat_days_ago d\<close>
  is the text of \<open>datetime.now() - timedelta(days=d)\<close>.\<close>

record gen_draws =
  g_crop :: nat
  g_disease :: nat
  g_days_ago :: nat
  g_plant_age :: nat
  g_region :: nat
  g_soil_ph :: real
  g_soil_moisture :: real
  g_temperature :: real
  g_humidity :: real
  g_leaf_color :: nat
  g_lesion_present :: nat
  g_lesion_count :: nat
  g_spot_size :: real
  g_nutrient_inner :: nat
  g_nutrient :: nat
  g_severity :: nat
  g_isoformat_days_ago :: "int \<Rightarrow> string"

definition generate_sample :: "nat \<Rightarrow> gen_draws \<Rightarrow> sample" where
  "generate_sample n r =
     (let crop = choice (map fst CROPS_DISEASES) (g_crop r);
          disease = choice (case map_of CROPS_DISEASES crop of Some ds \<Rightarrow> ds | None \<Rightarrow> [])
                      (g_disease r);
          is_healthy = (disease = ''Healthy'');
          days_ago = randint 0 365 (g_days_ago r);
          ts = g_isoformat_days_ago r days_ago;
          plant_age = randint 20 150 (g_plant_age r);
          region = choice REGIONS (g_region r);
          ph = py_round (uniform 5.5 8.0 (g_soil_ph r)) 2;
          soil_moisture = py_round (uniform 15 85 (g_soil_moisture r)) 1;
          temperature = py_round (uniform 15 38 (g_temperature r)) 1;
          humidity = py_round (uniform 30 95 (g_humidity r)) 1;
          (color, present, n_lesions, spot_size, nutrient_def, sev) =
            (if is_healthy then
               (choice LEAF_COLORS_Healthy (g_leaf_color r),
                False,
                0,
                0,
                choice [''None'', ''None'', ''None'',
                        choice (tl NUTRIENT_DEFICIENCY) (g_nutrient_inner r)] (g_nutrient r),
                ''None'')
             else
               (let present = choice [True, True, False] (g_lesion_present r)
                in (choice (LEAF_COLORS_Diseased @ LEAF_COLORS_Healthy) (g_leaf_color r),
                    present,
                    if present then randint 0 25 (g_lesion_count r) else 0,
                    if present then py_round (uniform 0 15 (g_spot_size r)) 1 else 0,
                    choice NUTRIENT_DEFICIENCY (g_nutrient r),
                    choice SEVERITY (g_severity r))))
      in \<lparr>sample_id = ''SAMPLE_'' @ format_06d n, timestamp = ts, crop_type = crop,
          plant_age_days = plant_age, location_region = region, soil_ph = ph,
          soil_moisture_pct = soil_moisture, ambient_temperature_c = temperature,
          ambient_humidity_pct = humidity, leaf_color = color, lesion_present = present,
          lesion_count = n_lesions, spot_size_mm = spot_size,
          nutrient_deficiency_signs = nutrient_def, other_notes = [],
          label_disease = disease, severity = sev\<rparr>)"

text \<open>\<open>generate_dataset\<close>: sample \<open>i\<close> gets the number \<open>i + 1\<close> and its own draws.\<close>

definition generate_dataset :: "nat \<Rightarrow> (nat \<Rightarrow> gen_draws) \<Rightarrow> sample list" where
  "generate_dataset num_samples draws =
     map (\<lambda>i. generate_sample (i + 1) (draws i)) [0..<num_samples]"

text \<open>The CSV file \<open>generate_dataset\<close> writes: the header \<open>fieldnames\<close>, and for each
  sample the line \<open>csv.DictWriter\<close> writes, the \<open>str\<close> of each value. A file is its header
  and its lines, a line the list of its fields as text (quoting and delimiters are below
  this model). The text Python prints for a float is a parameter.\<close>

record csv_file =
  csv_header :: "string list"
  csv_lines :: "string list list"

definition fieldnames :: "string list" where
  "fieldnames =
     [''sample_id'', ''timestamp'', ''crop_type'', ''plant_age_days'', ''location_region'',
      ''soil_ph'', ''soil_moisture_pct'', ''ambient_temperature_c'', ''ambient_humidity_pct'',
      ''leaf_color'', ''lesion_present'', ''lesion_count'', ''spot_size_mm'',
      ''nutrient_deficiency_signs'', ''other_notes'', ''label_disease'', ''severity'']"

definition writerow :: "(real \<Rightarrow> string) \<Rightarrow> sample \<Rightarrow> string list" where
  "writerow fr s =
     [sample_id s, timestamp s, crop_type s, str_of_int (plant_age_days s), location_region s,
      fr (soil_ph s), fr (soil_moisture_pct s), fr (ambient_temperature_c s),
      fr (ambient_humidity_pct s), leaf_color s, str_of_bool (lesion_present s),
      str_of_int (lesion_count s), fr (spot_size_mm s), nutrient_deficiency_signs s,
      other_notes s, label_disease s, severity s]"

definition generate_dataset_file ::
  "(real \<Rightarrow> string) \<Rightarrow> nat \<Rightarrow> (nat \<Rightarrow> gen_draws) \<Rightarrow> csv_file" where
  "generate_dataset_file fr num_samples draws =
     \<lparr>csv_header = fieldnames, csv_lines = map (writerow fr) (generate_dataset num_samples draws)\<rparr>"

section \<open>Dataset augmenter: \<open>augment_data.py\<close>\<close>

text \<open>A value of a frame read from a CSV file: missing (\<open>NaN\<close>), text, integer, float or
  boolean. A frame is its column names and its rows.\<close>

datatype field = VNaN | VStr string | VInt int | VFloat real | VBool bool

type_synonym table = "string list \<times> field list list"

text \<open>pandas reads the input file and writes the output file: \<open>read_csv\<close> and \<open>to_csv\<close>
  are parameters, \<open>'f\<close> is the content of a file.\<close>

record 'f csv_libs =
  read_csv :: "'f \<Rightarrow> error + table"
  to_csv :: "table \<Rightarrow> 'f"

text \<open>Python numbers as the loop computes them: an \<open>int\<close>, a \<open>float\<close>, or the float
  \<open>nan\<close>. Adding a number to a string is a \<open>TypeError\<close>; a boolean counts as 0 or 1.\<close>

datatype pynum = PInt int | PFloat real | PNaN

fun to_num :: "field \<Rightarrow> error + pynum" where
  "to_num VNaN = Inr PNaN"
| "to_num (VInt n) = Inr (PInt n)"
| "to_num (VFloat x) = Inr (PFloat x)"
| "to_num (VBool b) = Inr (PInt (if b then 1 else 0))"
| "to_num (VStr s) = Inl (TypeError ''can only concatenate str to str'')"

fun add_int :: "pynum \<Rightarrow> int \<Rightarrow> pynum" where
  "add_int (PInt n) k = PInt (n + k)"
| "add_int (PFloat x) k = PFloat (x + of_int k)"
| "add_int PNaN k = PNaN"

fun add_float :: "pynum \<Rightarrow> real \<Rightarrow> pynum" where
  "add_float (PInt n) u = PFloat (of_int n + u)"
| "add_float (PFloat x) u = PFloat (x + u)"
| "add_float PNaN u = PNaN"

text \<open>\<open>int(x)\<close> truncates towards zero and fails on \<open>nan\<close>.\<close>

fun py_int_of :: "pynum \<Rightarrow> error + int" where
  "py_int_of (PInt n) = Inr n"
| "py_int_of (PFloat x) = Inr (if 0 \<le> x then \<lfloor>x\<rfloor> else \<lceil>x\<rceil>)"
| "py_int_of PNaN = Inl (ValueError ''cannot convert float NaN to integer'')"

text \<open>\<open>a < b\<close> is false when either side is \<open>nan\<close>; \<open>min(a, b)\<close> is \<open>b\<close> if \<open>b < a\<close> and
  \<open>a\<close> otherwise, \<open>max(a, b)\<close> is \<open>b\<close> if \<open>b > a\<close> and \<open>a\<close> otherwise.\<close>

fun num_real :: "pynum \<Rightarrow> real option" where
  "num_real (PInt n) = Some (of_int n)"
| "num_real (PFloat x) = Some x"
| "num_real PNaN = None"

definition num_less :: "pynum \<Rightarrow> pynum \<Rightarrow> bool" where
  "num_less a b = (case (num_real a, num_real b) of (Some x, Some y) \<Rightarrow> x < y | _ \<Rightarrow> False)"

definition num_min :: "pynum \<Rightarrow> pynum \<Rightarrow> pynum" where
  "num_min a b = (if num_less b a then b else a)"

definition num_max :: "pynum \<Rightarrow> pynum \<Rightarrow> pynum" where
  "num_max a b = (if num_less a b then b else a)"

text \<open>\<open>round(x, ndigits)\<close>: an \<open>int\<close> stays as it is.\<close>

fun round_num :: "pynum \<Rightarrow> nat \<Rightarrow> pynum" where
  "round_num (PInt n) ndigits = PInt n"
| "round_num (PFloat x) ndigits = PFloat (py_round x ndigits)"
| "round_num PNaN ndigits = PNaN"

fun field_of_num :: "pynum \<Rightarrow> field" where
  "field_of_num (PInt n) = VInt n"
| "field_of_num (PFloat x) = VFloat x"
| "field_of_num PNaN = VNaN"

text \<open>The truth value of \<open>if base_sample['lesion_present']\<close>: \<open>nan\<close> is true.\<close>

fun truthy :: "field \<Rightarrow> bool" where
  "truthy VNaN = True"
| "truthy (VStr s) = (s \<noteq> [])"
| "truthy (VInt n) = (n \<noteq> 0)"
| "truthy (VFloat x) = (x \<noteq> 0)"
| "truthy (VBool b) = b"

text \<open>\<open>d[k]\<close> on a dict, and \<open>d[k]\<close> as the left operand of an addition.\<close>

definition getitem :: "(string \<times> field) list \<Rightarrow> string \<Rightarrow> error + field" where
  "getitem d k = (case map_of d k of None \<Rightarrow> Inl (KeyError k) | Some v \<Rightarrow> Inr v)"

definition getnum :: "(string \<times> field) list \<Rightarrow> string \<Rightarrow> error + pynum" where
  "getnum d k = bind_err (getitem d k) to_num"

record aug_draws =
  a_base :: nat
  a_days_ago :: nat
  a_plant_age :: nat
  a_soil_ph :: real
  a_soil_moisture :: real
  a_temperature :: real
  a_humidity :: real
  a_lesion_count :: nat
  a_spot_size :: real
  a_isoformat_days_ago :: "int \<Rightarrow> string"

text \<open>One turn of the loop. \<open>df.sample(n=1)\<close> fails on a frame without rows; the row drawn
  becomes a dict, which is copied and updated statement by statement.\<close>

definition augment_sample :: "table \<Rightarrow> nat \<Rightarrow> aug_draws \<Rightarrow> error + (string \<times> field) list" where
  "augment_sample df i r =
     (if snd df = [] then Inl (ValueError ''Cannot take a larger sample than population'')
      else
        (let original_size = length (snd df);
             base_sample = zip (fst df) (choice (snd df) (a_base r));
             a1 = setitem base_sample ''sample_id''
                    (VStr (''SAMPLE_'' @ format_06d (original_size + i + 1)));
             a2 = setitem a1 ''timestamp''
                    (VStr (a_isoformat_days_ago r (randint 0 365 (a_days_ago r))))
         in
         bind_err (getnum base_sample ''plant_age_days'') (\<lambda>age.
         bind_err (py_int_of (add_int age (randint (- 10) 10 (a_plant_age r)))) (\<lambda>age_int.
         let a3 = setitem a2 ''plant_age_days'' (VInt (max 20 age_int)) in
         bind_err (getnum base_sample ''soil_ph'') (\<lambda>ph.
         let a4 = setitem a3 ''soil_ph''
                    (field_of_num (round_num (num_max (PFloat 5.5) (num_min (PFloat 8.0)
                       (add_float ph (uniform (- 0.3) 0.3 (a_soil_ph r))))) 2)) in
         bind_err (getnum base_sample ''soil_moisture_pct'') (\<lambda>moisture.
         let a5 = setitem a4 ''soil_moisture_pct''
                    (field_of_num (round_num (num_max (PInt 15) (num_min (PInt 85)
                       (add_float moisture (uniform (- 5) 5 (a_soil_moisture r))))) 1)) in
         bind_err (getnum base_sample ''ambient_temperature_c'') (\<lambda>temperature.
         let a6 = setitem a5 ''ambient_temperature_c''
                    (field_of_num (round_num (num_max (PInt 15) (num_min (PInt 38)
                       (add_float temperature (uniform (- 2) 2 (a_temperature r))))) 1)) in
         bind_err (getnum base_sample ''ambient_humidity_pct'') (\<lambda>humidity.
         let a7 = setitem a6 ''ambient_humidity_pct''
                    (field_of_num (round_num (num_max (PInt 30) (num_min (PInt 95)
                       (add_float humidity (uniform (- 5) 5 (a_humidity r))))) 1)) in
         bind_err (getitem base_sample ''lesion_present'') (\<lambda>present.
         if truthy present then
           bind_err (getnum base_sample ''lesion_count'') (\<lambda>n_lesions.
           bind_err (py_int_of (add_int n_lesions (randint (- 3) 3 (a_lesion_count r)))) (\<lambda>n_int.
           let a8 = setitem a7 ''lesion_count'' (VInt (max 0 n_int)) in
           bind_err (getnum base_sample ''spot_size_mm'') (\<lambda>spot.
           Inr (setitem a8 ''spot_size_mm''
                  (field_of_num (round_num (num_max (PInt 0)
                     (add_float spot (uniform (- 1) 1 (a_spot_size r)))) 1))))))
         else Inr a7)))))))))"

text \<open>The loop \<open>for i in range(samples_needed)\<close>, stopping at the first failure.\<close>

fun augment_loop ::
  "table \<Rightarrow> (nat \<Rightarrow> aug_draws) \<Rightarrow> nat list \<Rightarrow> error + (string \<times> field) list list" where
  "augment_loop df draws [] = Inr []"
| "augment_loop df draws (i # rest) =
     bind_err (augment_sample df i (draws i)) (\<lambda>augmented.
       bind_err (augment_loop df draws rest) (\<lambda>more. Inr (augmented # more)))"

text \<open>\<open>pd.concat([df, pd.DataFrame(augmented_samples)], ignore_index=True)\<close>: the columns of
  \<open>df\<close>, then the keys only the new rows have; a row without a value for a column holds
  \<open>NaN\<close> there.\<close>

definition row_of_dict :: "string list \<Rightarrow> (string \<times> field) list \<Rightarrow> field list" where
  "row_of_dict cols d = map (\<lambda>c. case map_of d c of Some v \<Rightarrow> v | None \<Rightarrow> VNaN) cols"

definition concat_frames :: "table \<Rightarrow> (string \<times> field) list list \<Rightarrow> table" where
  "concat_frames df augmented_samples =
     (let added = remdups (filter (\<lambda>k. k \<notin> set (fst df))
                             (concat (map (map fst) augmented_samples)));
          final_cols = fst df @ added
      in (final_cols,
          map (\<lambda>row. row_of_dict final_cols (zip (fst df) row)) (snd df)
          @ map (row_of_dict final_cols) augmented_samples))"

text \<open>\<open>augment_dataset\<close>: the input file in; out, the file written, if one is written, and
  the error the run ends with, if it ends with one. Nothing is written when the dataset
  already has the target size or when reading or the loop fails. The last statement, the
  count of \<open>final_df['label_disease']\<close>, comes after the file is written and fails when the
  frame has no such column.\<close>

definition augment_dataset ::
  "'f csv_libs \<Rightarrow> 'f \<Rightarrow> int \<Rightarrow> (nat \<Rightarrow> aug_draws) \<Rightarrow> 'f option \<times> error option" where
  "augment_dataset libs input_file target_size draws =
     (case read_csv libs input_file of
        Inl e \<Rightarrow> (None, Some e)
      | Inr df \<Rightarrow>
          (let original_size = length (snd df)
           in if target_size \<le> int original_size then (None, None)
              else
                (let samples_needed = nat (target_size - int original_size)
                 in case augment_loop df draws [0..<samples_needed] of
                      Inl e \<Rightarrow> (None, Some e)
                    | Inr augmented_samples \<Rightarrow>
                        (let final_df = concat_frames df augmented_samples
                         in (Some (to_csv libs final_df),
                             if ''label_disease'' \<in> set (fst final_df) then None
                             else Some (KeyError ''label_disease''))))))"

section \<open>An instance of the libraries\<close>

text \<open>
  To run the model on concrete inputs the libraries need an instance. The scaler
  standardises each column with its mean and its standard deviation, over the reals, a
  column without spread keeping the scale 1, as \<open>StandardScaler\<close> does; a string column
  cannot be converted and fails. The split holds out every fifth row. The classifier is a
  stand-in that always answers the first of the classes it was fitted on. The text of a
  float is written with one decimal, as Python prints a non-negative float that has one.
\<close>

fun to_floats :: "column \<Rightarrow> real list option" where
  "to_floats (ObjCol xs) = None"
| "to_floats (BoolCol bs) = Some (map (\<lambda>b. if b then 1 else 0) bs)"
| "to_floats (IntCol ns) = Some (map of_int ns)"
| "to_floats (FloatCol fs) = Some fs"

definition mean :: "real list \<Rightarrow> real" where
  "mean xs = sum_list xs / real (length xs)"

definition std_scale :: "real list \<Rightarrow> real" where
  "std_scale xs =
     (let m = mean xs; var = sum_list (map (\<lambda>x. (x - m) ^ 2) xs) / real (length xs)
      in if var = 0 then 1 else sqrt var)"

definition rows_of :: "real list list \<Rightarrow> matrix" where
  "rows_of cols = (case cols of [] \<Rightarrow> []
                   | c # _ \<Rightarrow> map (\<lambda>i. map (\<lambda>xs. xs ! i) cols) [0..<length c])"

definition std_fit ::
  "(real \<times> real) list option \<Rightarrow> frame \<Rightarrow> error + (real \<times> real) list option" where
  "std_fit sc X =
     (case those (map (\<lambda>(c, col). to_floats col) X) of
        None \<Rightarrow> Inl (ValueError ''could not convert string to float'')
      | Some cols \<Rightarrow>
          if cols = [] \<or> hd cols = [] then Inl (ValueError ''Found array with 0 sample(s)'')
          else Inr (Some (map (\<lambda>xs. (mean xs, std_scale xs)) cols)))"

definition std_transform :: "(real \<times> real) list option \<Rightarrow> frame \<Rightarrow> error + matrix" where
  "std_transform sc X =
     (case sc of
        None \<Rightarrow> Inl (NotFittedError ''This StandardScaler instance is not fitted yet'')
      | Some stats \<Rightarrow>
          (case those (map (\<lambda>(c, col). to_floats col) X) of
             None \<Rightarrow> Inl (ValueError ''could not convert string to float'')
           | Some cols \<Rightarrow>
               if length cols \<noteq> length stats
               then Inl (ValueError ''X has a different number of features'')
               else Inr (rows_of (map (\<lambda>((m, sd), xs). map (\<lambda>x. (x - m) / sd) xs)
                                    (zip stats cols)))))"

definition holdout_split :: "nat \<Rightarrow> cell list option \<Rightarrow> error + (nat list \<times> nat list)" where
  "holdout_split n y =
     Inr (filter (\<lambda>i. i mod 5 \<noteq> 4) [0..<n], filter (\<lambda>i. i mod 5 = 4) [0..<n])"

fun label_of :: "cell \<Rightarrow> string" where
  "label_of (S s) = s"
| "label_of (B b) = str_of_bool b"
| "label_of (I n) = str_of_int n"
| "label_of (F x) = str_of_int \<lfloor>x\<rfloor>"

definition first_class_fit :: "matrix \<Rightarrow> cell list option \<Rightarrow> error + string list" where
  "first_class_fit X y =
     (case y of
        None \<Rightarrow> Inl (ValueError ''y is None'')
      | Some ys \<Rightarrow> if ys = [] then Inl (ValueError ''no samples'')
                   else Inr (sort (remdups (map label_of ys))))"

definition first_class_predict :: "string list \<Rightarrow> matrix \<Rightarrow> error + string list" where
  "first_class_predict m X =
     (case m of [] \<Rightarrow> Inl (NotFittedError ''not fitted'') | c # _ \<Rightarrow> Inr (map (\<lambda>row. c) X))"

definition first_class_proba :: "string list \<Rightarrow> matrix \<Rightarrow> error + matrix" where
  "first_class_proba m X =
     (case m of [] \<Rightarrow> Inl (NotFittedError ''not fitted'')
      | c # rest \<Rightarrow> Inr (map (\<lambda>row. 1 # map (\<lambda>c. 0) rest) X))"

definition first_class_hits :: "string list \<Rightarrow> matrix \<Rightarrow> cell list option \<Rightarrow> error + nat" where
  "first_class_hits m X y =
     (case (m, y) of
        (c # _, Some ys) \<Rightarrow> Inr (length (filter (\<lambda>l. label_of l = c) ys))
      | _ \<Rightarrow> Inl (ValueError ''nothing to evaluate''))"

definition demo_libs :: "((real \<times> real) list option, string list, nat) libs" where
  "demo_libs =
     \<lparr>float_repr = (\<lambda>x. str_of_int \<lfloor>x\<rfloor> @ ''.'' @ str_of_nat (nat \<lfloor>(x - of_int \<lfloor>x\<rfloor>) * 10\<rfloor>)),
      StandardScaler = None,
      scaler_fit = std_fit,
      scaler_transform = std_transform,
      train_test_split = holdout_split,
      grid_search_fit = first_class_fit,
      evaluate_metrics = first_class_hits,
      clf_predict = first_class_predict,
      clf_predict_proba = first_class_proba,
      clf_classes = (\<lambda>m. m),
      now_isoformat = ''2026-01-01T00:00:00+00:00''\<rparr>"

section \<open>Concrete inputs\<close>

text \<open>The scenario of the spec: three samples of \<open>Healthy\<close> and three of \<open>Early_Blight\<close>,
  with the one categorical column \<open>leaf_color\<close>.\<close>

definition scenario_df :: frame where
  "scenario_df =
     [(''leaf_color'', ObjCol [''Green'', ''Yellow'', ''Green'', ''Yellow'', ''Yellow'', ''Green'']),
      (''label_disease'', ObjCol [''Healthy'', ''Early_Blight'', ''Healthy'', ''Early_Blight'',
                                  ''Early_Blight'', ''Healthy''])]"

text \<open>A dataset of twenty rows, ten of each label, every row with a leaf colour of its own.\<close>

definition shades :: "string list" where
  "shades = [''shade_00'', ''shade_01'', ''shade_02'', ''shade_03'', ''shade_04'',
             ''shade_05'', ''shade_06'', ''shade_07'', ''shade_08'', ''shade_09'',
             ''shade_10'', ''shade_11'', ''shade_12'', ''shade_13'', ''shade_14'',
             ''shade_15'', ''shade_16'', ''shade_17'', ''shade_18'', ''shade_19'']"

definition twenty_labels :: "string list" where
  "twenty_labels = replicate 10 ''Healthy'' @ replicate 10 ''Early_Blight''"

definition twenty_rows :: frame where
  "twenty_rows =
     [(''leaf_color'', ObjCol shades),
      (''lesion_count'', IntCol [0, 0, 0, 0, 0, 0, 0, 0, 0, 0, 2, 4, 6, 8, 10, 12, 14, 16, 18, 20]),
      (''label_disease'', ObjCol twenty_labels)]"

text \<open>What a run has fitted for a column: the vocabulary of its encoder.\<close>

definition fitted_vocabulary ::
  "error + ('s, 'm, 'k) training_run \<Rightarrow> string \<Rightarrow> string list option" where
  "fitted_vocabulary run col =
     (case run of Inl e \<Rightarrow> None
      | Inr r \<Rightarrow> map_option le_classes (map_of (label_encoders (fitted r)) col))"

text \<open>A fitted artifact and requests to it.\<close>

definition demo_artifact :: "((real \<times> real) list option, string list) model_data" where
  "demo_artifact =
     \<lparr>md_model = [''Early_Blight'', ''Healthy''],
      md_label_encoders =
        [(''crop_type'', \<lparr>le_classes = [''Potato'', ''Tomato'']\<rparr>),
         (''leaf_color'', \<lparr>le_classes = [''Green'', ''Yellow'']\<rparr>),
         (''lesion_present'', \<lparr>le_classes = [''False'', ''True'']\<rparr>)],
      md_scaler = Some [(1 / 2, 1 / 2), (60, 20), (1 / 2, 1 / 2), (1 / 2, 1 / 2), (5, 2)],
      md_feature_columns =
        [''crop_type'', ''plant_age_days'', ''leaf_color'', ''lesion_present'', ''lesion_count'']\<rparr>"

definition purple_request :: "(string \<times> cell) list" where
  "purple_request =
     [(''crop_type'', S ''Tomato''), (''plant_age_days'', I 80), (''leaf_color'', S ''Purple''),
      (''lesion_present'', B True), (''lesion_count'', I 3)]"

definition short_request :: "(string \<times> cell) list" where
  "short_request =
     [(''leaf_color'', S ''Yellow''), (''crop_type'', S ''Potato''), (''plant_age_days'', I 40)]"

definition loaded_model :: "((real \<times> real) list option, string list) PlantDiseaseModel" where
  "loaded_model = load_model (init_model demo_libs) demo_artifact"

definition later_df :: frame where
  "later_df =
     [(''sample_id'', ObjCol [''SAMPLE_000001'', ''SAMPLE_000002'']),
      (''crop_type'', ObjCol [''Tomato'', ''Potato'']),
      (''location_region'', ObjCol [''North'', ''East'']),
      (''leaf_color'', ObjCol [''Green'', ''Purple'']),
      (''lesion_count'', IntCol [3, 0])]"

definition healthy_draws :: gen_draws where
  "healthy_draws =
     \<lparr>g_crop = 1, g_disease = 0, g_days_ago = 3, g_plant_age = 10, g_region = 2,
      g_soil_ph = 1 / 2, g_soil_moisture = 1 / 2, g_temperature = 1 / 2, g_humidity = 1 / 2,
      g_leaf_color = 1, g_lesion_present = 0, g_lesion_count = 7, g_spot_size = 1 / 2,
      g_nutrient_inner = 0, g_nutrient = 3, g_severity = 1,
      g_isoformat_days_ago = (\<lambda>d. ''2026-01-01T00:00:00'')\<rparr>"

definition steady_draws :: aug_draws where
  "steady_draws =
     \<lparr>a_base = 7, a_days_ago = 30, a_plant_age = 12, a_soil_ph = 1 / 2, a_soil_moisture = 1 / 4,
      a_temperature = 3 / 4, a_humidity = 1 / 2, a_lesion_count = 5, a_spot_size = 1 / 2,
      a_isoformat_days_ago = (\<lambda>d. ''2026-01-01T00:00:00'')\<rparr>"

text \<open>The same draws at every turn of the augmenter's loop.\<close>

definition steady_run :: "nat \<Rightarrow> aug_draws" where
  "steady_run i = steady_draws"

section \<open>An instance of the CSV reader and writer\<close>

text \<open>
  pandas with its defaults, as far as the augmenter meets it. Reading: a field whose text
  is one of the missing-value spellings is \<open>NaN\<close>; a column is a column of integers if all
  its fields are integers, of floats if all that are present are numbers, of booleans if
  all that are present are \<open>True\<close> or \<open>False\<close>, and of text otherwise; a line longer than the
  header is an error, a shorter one is filled up with missing fields. Writing: \<open>NaN\<close> is the
  empty field, an integer in a column that also holds floats or \<open>NaN\<close> is written as a
  float. Numbers are plain decimals here (no exponents), and a float is written with the
  digits of its decimal expansion, which is what Python prints for a float of few digits.
\<close>

definition NA_VALUES :: "string list" where
  "NA_VALUES = ['''', ''#N/A'', ''#N/A N/A'', ''#NA'', ''-1.#IND'', ''-1.#QNAN'', ''-NaN'',
                ''-nan'', ''1.#IND'', ''1.#QNAN'', ''<NA>'', ''N/A'', ''NA'', ''NULL'', ''NaN'',
                ''None'', ''n/a'', ''nan'', ''null'']"

definition is_na :: "string \<Rightarrow> bool" where
  "is_na t = (t \<in> set NA_VALUES)"

definition is_digit :: "char \<Rightarrow> bool" where
  "is_digit c = (c \<in> set ''0123456789'')"

definition digit_val :: "char \<Rightarrow> nat" where
  "digit_val c = index_of ''0123456789'' c"

definition nat_of_digits :: "string \<Rightarrow> nat" where
  "nat_of_digits s = foldl (\<lambda>a c. 10 * a + digit_val c) 0 s"

definition unsigned_int :: "string \<Rightarrow> nat option" where
  "unsigned_int s = (if s \<noteq> [] \<and> list_all is_digit s then Some (nat_of_digits s) else None)"

definition unsigned_decimal :: "string \<Rightarrow> real option" where
  "unsigned_decimal s =
     (let whole = takeWhile (\<lambda>c. c \<noteq> CHR ''.'') s;
          rest = dropWhile (\<lambda>c. c \<noteq> CHR ''.'') s
      in if list_all is_digit whole \<and> list_all is_digit (tl rest) \<and> whole @ tl rest \<noteq> []
         then Some (real (nat_of_digits (whole @ tl rest)) / 10 ^ length (tl rest))
         else None)"

definition parse_int :: "string \<Rightarrow> int option" where
  "parse_int s =
     (case s of
        [] \<Rightarrow> None
      | c # cs \<Rightarrow>
          if c = CHR ''-'' then map_option (\<lambda>n. - int n) (unsigned_int cs)
          else if c = CHR ''+'' then map_option int (unsigned_int cs)
          else map_option int (unsigned_int s))"

definition parse_float :: "string \<Rightarrow> real option" where
  "parse_float s =
     (case s of
        [] \<Rightarrow> None
      | c # cs \<Rightarrow>
          if c = CHR ''-'' then map_option uminus (unsigned_decimal cs)
          else if c = CHR ''+'' then unsigned_decimal cs
          else unsigned_decimal s)"

definition bool_text :: "string \<Rightarrow> bool option" where
  "bool_text t =
     (if t \<in> set [''True'', ''TRUE'', ''true''] then Some True
      else if t \<in> set [''False'', ''FALSE'', ''false''] then Some False
      else None)"

definition infer_column :: "string list \<Rightarrow> field list" where
  "infer_column ts =
     (let present = filter (\<lambda>t. \<not> is_na t) ts
      in if present = [] then map (\<lambda>t. VNaN) ts
         else if list_all (\<lambda>t. parse_int t \<noteq> None) present then
           (if length present = length ts
            then map (\<lambda>t. case parse_int t of Some n \<Rightarrow> VInt n | None \<Rightarrow> VNaN) ts
            else map (\<lambda>t. case parse_int t of Some n \<Rightarrow> VFloat (of_int n) | None \<Rightarrow> VNaN) ts)
         else if list_all (\<lambda>t. parse_float t \<noteq> None) present then
           map (\<lambda>t. if is_na t then VNaN
                     else case parse_float t of Some x \<Rightarrow> VFloat x | None \<Rightarrow> VNaN) ts
         else if list_all (\<lambda>t. bool_text t \<noteq> None) present then
           map (\<lambda>t. if is_na t then VNaN
                     else case bool_text t of Some b \<Rightarrow> VBool b | None \<Rightarrow> VNaN) ts
         else map (\<lambda>t. if is_na t then VNaN else VStr t) ts)"

definition pandas_read_csv :: "csv_file \<Rightarrow> error + table" where
  "pandas_read_csv f =
     (if \<exists>l \<in> set (csv_lines f). length (csv_header f) < length l
      then Inl (ValueError ''Error tokenizing data'')
      else
        (let cols = map (\<lambda>j. infer_column
                           (map (\<lambda>l. if j < length l then l ! j else []) (csv_lines f)))
                      [0..<length (csv_header f)]
         in Inr (csv_header f,
                 map (\<lambda>i. map (\<lambda>col. col ! i) cols) [0..<length (csv_lines f)])))"

datatype kind = IntKind | FloatKind | BoolKind | ObjectKind

fun is_int_field :: "field \<Rightarrow> bool" where
  "is_int_field (VInt n) = True"
| "is_int_field v = False"

fun is_number_or_nan :: "field \<Rightarrow> bool" where
  "is_number_or_nan (VInt n) = True"
| "is_number_or_nan (VFloat x) = True"
| "is_number_or_nan VNaN = True"
| "is_number_or_nan v = False"

fun is_bool_field :: "field \<Rightarrow> bool" where
  "is_bool_field (VBool b) = True"
| "is_bool_field v = False"

definition column_kind :: "field list \<Rightarrow> kind" where
  "column_kind vs =
     (if vs \<noteq> [] \<and> list_all is_int_field vs then IntKind
      else if list_all is_number_or_nan vs then FloatKind
      else if list_all is_bool_field vs then BoolKind
      else ObjectKind)"

fun print_field :: "(real \<Rightarrow> string) \<Rightarrow> kind \<Rightarrow> field \<Rightarrow> string" where
  "print_field fr k VNaN = []"
| "print_field fr k (VStr s) = s"
| "print_field fr k (VBool b) = str_of_bool b"
| "print_field fr k (VFloat x) = fr x"
| "print_field fr FloatKind (VInt n) = fr (of_int n)"
| "print_field fr k (VInt n) = str_of_int n"

definition pandas_to_csv :: "(real \<Rightarrow> string) \<Rightarrow> table \<Rightarrow> csv_file" where
  "pandas_to_csv fr df =
     \<lparr>csv_header = fst df,
      csv_lines = map (\<lambda>row. map (\<lambda>j. print_field fr (column_kind (map (\<lambda>r. r ! j) (snd df)))
                                          (row ! j))
                                [0..<length (fst df)])
                      (snd df)\<rparr>"

fun frac_digits :: "nat \<Rightarrow> real \<Rightarrow> string" where
  "frac_digits 0 f = []"
| "frac_digits (Suc k) f =
     (let d = nat \<lfloor>f * 10\<rfloor>; rest = f * 10 - real d
      in digit_char d # (if rest = 0 then [] else frac_digits k rest))"

definition repr_decimal :: "real \<Rightarrow> string" where
  "repr_decimal x =
     (let a = \<bar>x\<bar>; whole = nat \<lfloor>a\<rfloor>; f = a - real whole
      in (if x < 0 then ''-'' else []) @ str_of_nat whole @ ''.''
         @ (if f = 0 then ''0'' else frac_digits 17 f))"

definition pandas_csv :: "csv_file csv_libs" where
  "pandas_csv = \<lparr>read_csv = pandas_read_csv, to_csv = pandas_to_csv repr_decimal\<rparr>"

text \<open>A generated file: a hundred lines, each the line the generator writes for one and the
  same healthy sample.\<close>

definition healthy_line :: "string list" where
  "healthy_line = writerow repr_decimal (generate_sample 1 healthy_draws)"

definition healthy_file :: csv_file where
  "healthy_file = \<lparr>csv_header = fieldnames, csv_lines = replicate 100 healthy_line\<rparr>"

text \<open>The row pandas reads from that line.\<close>

definition healthy_row :: "field list" where
  "healthy_row =
     [VStr ''SAMPLE_000001'', VStr ''2026-01-01T00:00:00'', VStr ''Potato'', VInt 30,
      VStr ''East'', VFloat (27 / 4), VFloat 50, VFloat (53 / 2), VFloat (125 / 2),
      VStr ''Green'', VBool False, VInt 0, VFloat 0, VStr ''Nitrogen'', VNaN,
      VStr ''Healthy'', VNaN]"

text \<open>What a run has written: the number of lines, the lines, and the field at a line and a
  column.\<close>

definition written_rows :: "csv_file option \<times> error option \<Rightarrow> nat option" where
  "written_rows run = map_option (\<lambda>f. length (csv_lines f)) (fst run)"

definition written_lines :: "csv_file option \<times> error option \<Rightarrow> string list list option" where
  "written_lines run = map_option csv_lines (fst run)"

definition written_field :: "csv_file option \<times> error option \<Rightarrow> nat \<Rightarrow> nat \<Rightarrow> string option" where
  "written_field run i j = map_option (\<lambda>f. csv_lines f ! i ! j) (fst run)"

text \<open>The rows the loop can augment: a number that is not \<open>NaN\<close> where \<open>int\<close> is taken,
  a number or \<open>NaN\<close> where the value is only clamped, and the lesion columns when lesions are
  present.\<close>

fun is_number :: "field \<Rightarrow> bool" where
  "is_number (VInt n) = True"
| "is_number (VFloat x) = True"
| "is_number (VBool b) = True"
| "is_number v = False"

fun is_clampable :: "field \<Rightarrow> bool" where
  "is_clampable (VStr s) = False"
| "is_clampable v = True"

definition holds :: "(string \<times> field) list \<Rightarrow> string \<Rightarrow> (field \<Rightarrow> bool) \<Rightarrow> bool" where
  "holds d k P = (case map_of d k of None \<Rightarrow> False | Some v \<Rightarrow> P v)"

definition augmentable :: "(string \<times> field) list \<Rightarrow> bool" where
  "augmentable d =
     (holds d ''plant_age_days'' is_number \<and>
      holds d ''soil_ph'' is_clampable \<and>
      holds d ''soil_moisture_pct'' is_clampable \<and>
      holds d ''ambient_temperature_c'' is_clampable \<and>
      holds d ''ambient_humidity_pct'' is_clampable \<and>
      holds d ''lesion_present''
        (\<lambda>present. truthy present \<longrightarrow>
           holds d ''lesion_count'' is_number \<and> holds d ''spot_size_mm'' is_clampable))"

section \<open>Properties\<close>

subsection \<open>Dicts and frames\<close>

lemma map_of_setitem: "map_of (setitem al k v) = (map_of al)(k \<mapsto> v)"
  by (induction al) (auto simp: fun_eq_iff)

lemma keys_setitem:
  "map fst (setitem al k v) = (if k \<in> fst ` set al then map fst al else map fst al @ [k])"
  by (induction al) (auto simp: rev_image_eqI)

lemma setitem_present:
  "distinct (map fst al) \<Longrightarrow> k \<in> fst ` set al \<Longrightarrow>
   setitem al k v = map (\<lambda>(k', x). if k' = k then (k', v) else (k', x)) al"
proof (induction al)
  case Nil
  then show ?case by simp
next
  case (Cons a al)
  obtain k' x where a: "a = (k', x)" by (cases a)
  show ?case
  proof (cases "k' = k")
    case True
    with Cons.prems a have "k \<notin> fst ` set al" by auto
    then have "map (\<lambda>(k', x). if k' = k then (k', v) else (k', x)) al = al"
      by (induction al) auto
    with True a show ?thesis by simp
  next
    case False
    with Cons a show ?thesis by auto
  qed
qed

lemma map_of_in_keys: "map_of al k = Some v \<Longrightarrow> k \<in> fst ` set al"
  by (metis map_of_SomeD fst_conv image_eqI)

subsection \<open>The label encoder\<close>

lemma index_of_less: "x \<in> set xs \<Longrightarrow> index_of xs x < length xs"
  by (induction xs) auto

lemma nth_index_of: "x \<in> set xs \<Longrightarrow> xs ! index_of xs x = x"
  by (induction xs) auto

lemma index_of_nth: "distinct xs \<Longrightarrow> i < length xs \<Longrightarrow> index_of xs (xs ! i) = i"
proof (induction xs arbitrary: i)
  case Nil
  then show ?case by simp
next
  case (Cons a xs)
  then show ?case by (cases i) auto
qed

lemma le_fit_set: "set (le_classes (le_fit ys)) = set ys"
  by (simp add: le_fit_def)

lemma le_fit_distinct: "distinct (le_classes (le_fit ys))"
  by (simp add: le_fit_def)

lemma le_fit_sorted: "sorted_wrt (<) (le_classes (le_fit ys))"
  by (simp add: le_fit_def strict_sorted_iff)

lemma le_fit_length: "length (le_classes (le_fit ys)) = card (set ys)"
  by (simp add: le_fit_def length_remdups_card_conv)

lemma le_transform_known:
  "y \<in> set (le_classes le) \<Longrightarrow> le_transform le [y] = Inr [le_code le y]"
  by (simp add: le_transform_def)

lemma le_transform_unseen:
  "y \<notin> set (le_classes le) \<Longrightarrow> \<exists>m. le_transform le [y] = Inl (ValueError m)"
  by (simp add: le_transform_def)

lemma le_transform_nth:
  "distinct (le_classes le) \<Longrightarrow> i < length (le_classes le) \<Longrightarrow>
   le_transform le [le_classes le ! i] = Inr [int i]"
  by (simp add: le_transform_def le_code_def index_of_nth)

lemma le_round_trip:
  assumes "y \<in> set (le_classes le)"
  shows "bind_err (le_transform le [y]) (le_inverse_transform le) = Inr [y]"
  using assms
  by (simp add: le_transform_known bind_err_def le_inverse_transform_def le_code_def
      index_of_less nth_index_of)

lemma le_code_bij:
  "bij_betw (le_code (le_fit ys)) (set ys) {0..<int (card (set ys))}"
proof -
  let ?cs = "le_classes (le_fit ys)"
  have d: "distinct ?cs" and s: "set ?cs = set ys" and l: "length ?cs = card (set ys)"
    by (simp_all add: le_fit_distinct le_fit_set le_fit_length)
  have inj: "inj_on (le_code (le_fit ys)) (set ys)"
  proof (rule inj_onI)
    fix a b assume "a \<in> set ys" "b \<in> set ys" "le_code (le_fit ys) a = le_code (le_fit ys) b"
    then have "a \<in> set ?cs" "b \<in> set ?cs" "index_of ?cs a = index_of ?cs b"
      using s by (simp_all add: le_code_def)
    then show "a = b" by (metis nth_index_of)
  qed
  have img: "le_code (le_fit ys) ` set ys = {0..<int (card (set ys))}"
  proof (rule set_eqI, rule iffI)
    fix c assume "c \<in> le_code (le_fit ys) ` set ys"
    then obtain a where "a \<in> set ?cs" "c = int (index_of ?cs a)"
      using s by (auto simp: le_code_def)
    then show "c \<in> {0..<int (card (set ys))}"
      using index_of_less [of a ?cs] l by simp
  next
    fix c assume c: "c \<in> {0..<int (card (set ys))}"
    then have n: "nat c < length ?cs" using l by (auto simp: nat_less_iff)
    then have "?cs ! nat c \<in> set ys" using s nth_mem by blast
    moreover have "le_code (le_fit ys) (?cs ! nat c) = c"
      using c n d by (simp add: le_code_def index_of_nth)
    ultimately show "c \<in> le_code (le_fit ys) ` set ys" by force
  qed
  show ?thesis using inj img by (simp add: bij_betw_def)
qed

lemma setitem_same: "map_of al k = Some v \<Longrightarrow> setitem al k v = al"
  by (induction al) (auto split: if_splits)

lemma map_values_keys: "map fst (map (\<lambda>(k, v). (k, g k v)) X) = map fst X"
  by (induction X) auto

subsection \<open>Encoding the columns one at a time\<close>

text \<open>A loop that rewrites the columns named in \<open>cs\<close>, one at a time, rewrites each of them
  once and leaves the others.\<close>

lemma fold_setitem_map:
  "distinct (map fst X) \<Longrightarrow> distinct cs \<Longrightarrow>
   fold (\<lambda>c X. case map_of X c of None \<Rightarrow> X | Some v \<Rightarrow> setitem X c (h c v)) cs X =
     map (\<lambda>(k, v). (k, if k \<in> set cs then h k v else v)) X"
proof (induction cs arbitrary: X)
  case Nil
  then show ?case by (simp add: case_prod_unfold)
next
  case (Cons c cs)
  let ?step = "\<lambda>c X. case map_of X c of None \<Rightarrow> X | Some v \<Rightarrow> setitem X c (h c v)"
  let ?X1 = "map (\<lambda>(k, v). (k, if k = c then h k v else v)) X"
  have step: "?step c X = ?X1"
  proof (cases "map_of X c")
    case None
    then have "c \<notin> fst ` set X" by (simp add: map_of_eq_None_iff)
    then have "?X1 = X" by (induction X) auto
    with None show ?thesis by simp
  next
    case (Some vals)
    then have in_X: "c \<in> fst ` set X" by (rule map_of_in_keys)
    have "setitem X c (h c vals) = map (\<lambda>(k', x). if k' = c then (k', h c vals) else (k', x)) X"
      using Cons.prems(1) in_X by (rule setitem_present)
    also have "\<dots> = ?X1"
      using Some Cons.prems(1)
      by (intro map_cong) (auto dest: map_of_SomeD eq_key_imp_eq_value)
    finally show ?thesis using Some by simp
  qed
  have d1: "distinct (map fst ?X1)"
    using Cons.prems(1) by (simp only: map_values_keys)
  have "fold ?step (c # cs) X = fold ?step cs ?X1"
    by (simp only: fold_simps step)
  also have "\<dots> = map (\<lambda>(k, v). (k, if k \<in> set cs then h k v else v)) ?X1"
    using Cons.IH [OF d1] Cons.prems(2) by simp
  also have "\<dots> = map (\<lambda>(k, v). (k, if k \<in> set (c # cs) then h k v else v)) X"
    using Cons.prems(2) by auto
  finally show ?case .
qed

lemma encode_column_nofit_step:
  "encode_column env False c (self, X) =
     (self, case map_of X c of None \<Rightarrow> X
            | Some v \<Rightarrow> setitem X c (case map_of (label_encoders self) c of
                                       Some le \<Rightarrow> apply_encoder (float_repr env) le v
                                     | None \<Rightarrow> v))"
  by (simp add: encode_column_def setitem_same split: option.splits)

lemma encode_column_nofit_fold:
  assumes "distinct (map fst X)" "distinct cs"
  shows "fold (encode_column env False) cs (self, X) =
     (self, map (\<lambda>(c, v). (c, if c \<in> set cs
                  then (case map_of (label_encoders self) c of
                          Some le \<Rightarrow> apply_encoder (float_repr env) le v
                        | None \<Rightarrow> v)
                  else v)) X)"
proof -
  let ?h = "\<lambda>c v. case map_of (label_encoders self) c of
                     Some le \<Rightarrow> apply_encoder (float_repr env) le v | None \<Rightarrow> v"
  let ?step = "\<lambda>c X. case map_of X c of None \<Rightarrow> X | Some v \<Rightarrow> setitem X c (?h c v)"
  have "fold (encode_column env False) cs (self, Y) = (self, fold ?step cs Y)" for Y
    by (induction cs arbitrary: Y) (simp_all add: encode_column_nofit_step)
  then show ?thesis
    using fold_setitem_map [OF assms, of ?h] by simp
qed

lemma encode_column_fit_step:
  "encode_column env True c (self, X) =
     (case map_of X c of
        None \<Rightarrow> (self, X)
      | Some v \<Rightarrow>
          (self\<lparr>label_encoders :=
                  setitem (label_encoders self) c (le_fit (astype_str (float_repr env) v))\<rparr>,
           setitem X c (IntCol (snd (le_fit_transform (astype_str (float_repr env) v))))))"
  by (simp add: encode_column_def le_fit_transform_def Let_def split: option.splits)

lemma encode_column_fit_frame:
  assumes "distinct (map fst X)" "distinct cs"
  shows "snd (fold (encode_column env True) cs (self, X)) =
     map (\<lambda>(c, v). (c, if c \<in> set cs
            then IntCol (snd (le_fit_transform (astype_str (float_repr env) v))) else v)) X"
proof -
  let ?h = "\<lambda>c v. IntCol (snd (le_fit_transform (astype_str (float_repr env) v)))"
  let ?step = "\<lambda>c X. case map_of X c of None \<Rightarrow> X | Some v \<Rightarrow> setitem X c (?h c v)"
  have "snd (fold (encode_column env True) cs (st, Y)) = fold ?step cs Y" for Y st
    by (induction cs arbitrary: Y st) (simp_all add: encode_column_fit_step split: option.splits)
  then show ?thesis
    using fold_setitem_map [OF assms, of ?h] by simp
qed

lemma encode_column_fit_encoders:
  assumes "distinct (map fst X)" "distinct cs"
  shows "map_of (label_encoders (fst (fold (encode_column env True) cs (self, X)))) c =
     (if c \<in> set cs \<and> c \<in> fst ` set X
      then map_option (\<lambda>v. le_fit (astype_str (float_repr env) v)) (map_of X c)
      else map_of (label_encoders self) c)"
  using assms
proof (induction cs arbitrary: self X)
  case Nil
  then show ?case by simp
next
  case (Cons a cs)
  show ?case
  proof (cases "map_of X a")
    case None
    then have "a \<notin> fst ` set X" by (simp add: map_of_eq_None_iff)
    with None Cons show ?thesis by (auto simp: encode_column_fit_step)
  next
    case (Some vals)
    let ?self1 = "self\<lparr>label_encoders :=
                  setitem (label_encoders self) a (le_fit (astype_str (float_repr env) vals))\<rparr>"
    let ?X1 = "setitem X a (IntCol (snd (le_fit_transform (astype_str (float_repr env) vals))))"
    have in_X: "a \<in> fst ` set X" using Some by (rule map_of_in_keys)
    have keys: "map fst ?X1 = map fst X" using in_X by (simp add: keys_setitem)
    have d1: "distinct (map fst ?X1)" using Cons.prems(1) keys by simp
    have d2: "distinct cs" and a: "a \<notin> set cs" using Cons.prems(2) by simp_all
    have fst1: "fst ` set ?X1 = fst ` set X"
      using keys by (metis set_map)
    have "map_of (label_encoders (fst (fold (encode_column env True) (a # cs) (self, X)))) c =
          map_of (label_encoders (fst (fold (encode_column env True) cs (?self1, ?X1)))) c"
      using Some by (simp add: encode_column_fit_step)
    also have "\<dots> = (if c \<in> set cs \<and> c \<in> fst ` set ?X1
      then map_option (\<lambda>v. le_fit (astype_str (float_repr env) v)) (map_of ?X1 c)
      else map_of (label_encoders ?self1) c)"
      by (rule Cons.IH [OF d1 d2])
    also have "\<dots> = (if c \<in> set (a # cs) \<and> c \<in> fst ` set X
      then map_option (\<lambda>v. le_fit (astype_str (float_repr env) v)) (map_of X c)
      else map_of (label_encoders self) c)"
      using a Some in_X by (auto simp: fst1 map_of_setitem)
    finally show ?thesis .
  qed
qed

lemma encode_column_fit_fields:
  "feature_columns (fst (fold (encode_column env True) cs (self, X))) = feature_columns self \<and>
   scaler (fst (fold (encode_column env True) cs (self, X))) = scaler self \<and>
   model (fst (fold (encode_column env True) cs (self, X))) = model self \<and>
   target_column (fst (fold (encode_column env True) cs (self, X))) = target_column self"
  by (induction cs arbitrary: self X) (simp_all add: encode_column_fit_step split: option.splits)

lemma encode_column_nofit_state:
  "fst (fold (encode_column env False) cs (self, X)) = self"
  by (induction cs arbitrary: X) (simp_all add: encode_column_nofit_step)

lemma categorical_names:
  assumes "distinct (map fst X)" "(c, v) \<in> set X"
  shows "c \<in> set (select_dtypes_object_bool X) \<longleftrightarrow> is_categorical v"
proof
  assume "c \<in> set (select_dtypes_object_bool X)"
  then obtain w where "(c, w) \<in> set X" "is_categorical w"
    by (auto simp: select_dtypes_object_bool_def)
  with assms show "is_categorical v" by (auto dest: eq_key_imp_eq_value)
next
  assume "is_categorical v"
  with assms(2) show "c \<in> set (select_dtypes_object_bool X)"
    by (force simp: select_dtypes_object_bool_def)
qed

lemma categorical_names_distinct:
  "distinct (map fst X) \<Longrightarrow> distinct (select_dtypes_object_bool X)"
  by (simp add: select_dtypes_object_bool_def distinct_map_filter)

lemma encode_features_nofit:
  assumes "distinct (map fst X)"
  shows "encode_features env self X False =
     (self, map (\<lambda>(c, v). (c, if is_categorical v
                  then (case map_of (label_encoders self) c of
                          Some le \<Rightarrow> apply_encoder (float_repr env) le v
                        | None \<Rightarrow> v)
                  else v)) X)"
proof -
  have "map (\<lambda>(c, v). (c, if c \<in> set (select_dtypes_object_bool X)
                  then (case map_of (label_encoders self) c of
                          Some le \<Rightarrow> apply_encoder (float_repr env) le v
                        | None \<Rightarrow> v)
                  else v)) X =
        map (\<lambda>(c, v). (c, if is_categorical v
                  then (case map_of (label_encoders self) c of
                          Some le \<Rightarrow> apply_encoder (float_repr env) le v
                        | None \<Rightarrow> v)
                  else v)) X"
    using categorical_names [OF assms] by (intro map_cong) auto
  then show ?thesis
    using encode_column_nofit_fold [OF assms categorical_names_distinct [OF assms], of env self]
    by (simp add: encode_features_def)
qed

lemma encode_features_nofit_state: "fst (encode_features env self X False) = self"
  by (simp add: encode_features_def encode_column_nofit_state)

lemma preprocess_nofit:
  "preprocess env self df False =
     (case scaler_transform env (scaler self) (snd (encode_features env self (fst (split_target self df)) False)) of
        Inl e \<Rightarrow> Inl e
      | Inr X_scaled \<Rightarrow>
          Inr (self, (columns (snd (encode_features env self (fst (split_target self df)) False)), X_scaled),
               snd (split_target self df)))"
proof -
  obtain X0 y where sp: "split_target self df = (X0, y)" by (cases "split_target self df")
  obtain s2 X where en: "encode_features env self X0 False = (s2, X)"
    by (cases "encode_features env self X0 False")
  have "s2 = self" using encode_features_nofit_state [of env self X0] en by simp
  with sp en show ?thesis by (simp add: preprocess_def split: sum.splits)
qed

lemma split_target_distinct:
  "distinct (map fst df) \<Longrightarrow> distinct (map fst (fst (split_target self df)))"
  by (simp add: split_target_def drop_columns_def Let_def distinct_map_filter)

lemma split_target_features:
  assumes "set (map fst df) \<inter> (set drop_cols \<union> {target_column self}) = {}"
  shows "split_target self df = (df, None)"
proof -
  have "filter (\<lambda>col. col \<in> set (columns df)) drop_cols = []"
    using assms by (auto simp: filter_empty_conv columns_def)
  moreover have "drop_columns df [] = df" by (simp add: drop_columns_def)
  moreover have "target_column self \<notin> set (columns df)" using assms by (auto simp: columns_def)
  ultimately show ?thesis by (simp add: split_target_def)
qed

subsection \<open>The server's frame\<close>

lemma map_of_ensure_columns:
  "map_of (ensure_columns cols df) c =
     (if c \<in> fst ` set df then map_of df c
      else if c \<in> set cols then Some (IntCol [0]) else None)"
proof (induction cols arbitrary: df)
  case Nil
  then show ?case by (auto simp: ensure_columns_def map_of_eq_None_iff)
next
  case (Cons a cols)
  have unf: "ensure_columns (a # cols) df =
        ensure_columns cols (if a \<notin> set (columns df) then setitem df a (IntCol [0]) else df)"
    by (simp add: ensure_columns_def)
  show ?case
  proof (cases "a \<in> fst ` set df")
    case True
    then show ?thesis using Cons.IH [of df] unf 
      by (auto simp: columns_def)
  next
    case False
    let ?df1 = "setitem df a (IntCol [0])"
    have k: "fst ` set ?df1 = insert a (fst ` set df)"
    proof -
      have "set (map fst ?df1) = set (map fst df @ [a])"
        using False by (simp only: keys_setitem if_False)
      then show ?thesis by simp
    qed
    have "map_of (ensure_columns (a # cols) df) c = map_of (ensure_columns cols ?df1) c"
      using False unf by (simp add: columns_def)
    also have "\<dots> = (if c \<in> fst ` set ?df1 then map_of ?df1 c
      else if c \<in> set cols then Some (IntCol [0]) else None)"
      by (rule Cons.IH)
    also have "\<dots> = (if c \<in> fst ` set df then map_of df c
      else if c \<in> set (a # cols) then Some (IntCol [0]) else None)"
      using False by (auto simp: k map_of_setitem)
    finally show ?thesis .
  qed
qed

lemma select_features_eq:
  "select_features input_data cols =
     Inr (map (\<lambda>c. (c, case map_of (DataFrame input_data) c of
                          Some v \<Rightarrow> v | None \<Rightarrow> IntCol [0])) cols)"
proof -
  let ?df = "ensure_columns cols (DataFrame input_data)"
  have m: "map_of ?df c = Some (case map_of (DataFrame input_data) c of
                          Some v \<Rightarrow> v | None \<Rightarrow> IntCol [0])" if "c \<in> set cols" for c
    using that
    by (auto simp: map_of_ensure_columns map_of_eq_None_iff split: option.splits
        dest: map_of_in_keys)
  then have "\<forall>c \<in> set cols. map_of ?df c \<noteq> None" by simp
  moreover have "map (\<lambda>c. (c, the (map_of ?df c))) cols =
        map (\<lambda>c. (c, case map_of (DataFrame input_data) c of
                          Some v \<Rightarrow> v | None \<Rightarrow> IntCol [0])) cols"
    using m by (intro map_cong) simp_all
  ultimately show ?thesis by (simp add: select_features_def select_columns_def)
qed

lemma encode_with_step:
  "encode_with fr (c, le) df =
     (case map_of df c of None \<Rightarrow> df
      | Some v \<Rightarrow> setitem df c (transform_or_sentinel fr le v))"
  by (auto simp: encode_with_def columns_def map_of_eq_None_iff split: option.splits
      dest: map_of_in_keys)

lemma encode_with_fold:
  assumes "distinct (map fst df)" "distinct (map fst encs)"
  shows "fold (encode_with fr) encs df =
     map (\<lambda>(c, v). (c, case map_of encs c of
                          Some le \<Rightarrow> transform_or_sentinel fr le v | None \<Rightarrow> v)) df"
proof -
  let ?h = "\<lambda>c v. transform_or_sentinel fr (the (map_of encs c)) v"
  let ?step = "\<lambda>c X. case map_of X c of None \<Rightarrow> X | Some v \<Rightarrow> setitem X c (?h c v)"
  have "fold (encode_with fr) encs df = fold (?step \<circ> fst) encs df"
  proof (rule fold_cong [OF refl refl])
    fix p assume "p \<in> set encs"
    then have "map_of encs (fst p) = Some (snd p)"
      using assms(2) by (metis map_of_is_SomeI prod.collapse)
    then show "encode_with fr p = (?step \<circ> fst) p"
      by (cases p) (auto simp: fun_eq_iff encode_with_step split: option.splits)
  qed
  also have "\<dots> = fold ?step (map fst encs) df" by (simp add: fold_map)
  also have "\<dots> = map (\<lambda>(k, v). (k, if k \<in> set (map fst encs) then ?h k v else v)) df"
    by (rule fold_setitem_map [OF assms])
  also have "\<dots> = map (\<lambda>(c, v). (c, case map_of encs c of
                          Some le \<Rightarrow> transform_or_sentinel fr le v | None \<Rightarrow> v)) df"
    by (intro map_cong) (auto simp: map_of_eq_None_iff split: option.splits dest: map_of_in_keys)
  finally show ?thesis .
qed

lemma encode_with_fold_columns: "columns (fold (encode_with fr) encs df) = columns df"
proof (induction encs arbitrary: df)
  case Nil
  then show ?case by simp
next
  case (Cons p encs)
  obtain c le where p: "p = (c, le)" by (cases p)
  have "columns (encode_with fr (c, le) df) = columns df"
    by (auto simp: encode_with_step columns_def keys_setitem map_of_eq_None_iff
        split: option.splits dest: map_of_in_keys)
  with Cons p show ?case by simp
qed

lemma map_of_map_values:
  "map_of (map (\<lambda>(k, v). (k, g k v)) X) c = map_option (g c) (map_of X c)"
  by (induction X) auto

lemma map_of_DataFrame:
  "map_of (DataFrame d) c = map_option column_of_cell (map_of d c)"
  by (simp add: DataFrame_def map_of_map_values)

lemma astype_str_cell: "\<exists>x. astype_str fr (column_of_cell v) = [x]"
  by (cases v) simp_all

lemma transform_or_sentinel_single:
  "astype_str fr vals = [x] \<Longrightarrow> transform_or_sentinel fr le vals = apply_encoder fr le vals"
  by (simp add: transform_or_sentinel_def apply_encoder_def le_transform_def)

lemma transform_or_sentinel_unseen:
  "astype_str fr vals = [x] \<Longrightarrow> x \<notin> set (le_classes le) \<Longrightarrow>
   transform_or_sentinel fr le vals = IntCol [- 1]"
  by (simp add: transform_or_sentinel_def le_transform_def)

lemma encode_input_eq:
  assumes "distinct (md_feature_columns md)" "distinct (map fst (md_label_encoders md))"
  shows "encode_input env input_data md =
     Inr (map (\<lambda>c. (c, let v = (case map_of (DataFrame input_data) c of
                                    Some v \<Rightarrow> v | None \<Rightarrow> IntCol [0])
                        in case map_of (md_label_encoders md) c of
                             Some le \<Rightarrow> transform_or_sentinel (float_repr env) le v
                           | None \<Rightarrow> v)) (md_feature_columns md))"
proof -
  let ?sel = "map (\<lambda>c. (c, case map_of (DataFrame input_data) c of
                          Some v \<Rightarrow> v | None \<Rightarrow> IntCol [0])) (md_feature_columns md)"
  have k: "map fst ?sel = md_feature_columns md" by (simp add: comp_def)
  have d: "distinct (map fst ?sel)" using assms(1) by (simp only: k)
  show ?thesis
    by (simp add: encode_input_def select_features_eq bind_err_def
        encode_with_fold [OF d assms(2)] comp_def Let_def)
qed

lemma preprocess_input_eq:
  "preprocess_input env input_data md =
     (case encode_input env input_data md of Inl e \<Rightarrow> Inl e
      | Inr df \<Rightarrow> scaler_transform env (md_scaler md) df)"
  by (simp add: preprocess_input_def bind_err_def)

text \<open>
  Claim C6. For every input mapping, the frame selected for encoding is, column by column
  in the order of \<open>feature_columns\<close>, the value the input gives for the column, or the
  number \<open>0\<close> when the input has no such field; so a missing feature column holds \<open>0\<close>
  before encoding and a present one holds the request's value. The encoding keeps the
  columns and their order and rewrites each column that has an encoder in its place, and
  that frame is what the scaler receives.
\<close>
theorem missing_columns_zero_and_ordered:
  "\<exists>df0 df.
     select_features input_data (md_feature_columns md) = Inr df0 \<and>
     df0 = map (\<lambda>c. (c, case map_of input_data c of
                           Some v \<Rightarrow> column_of_cell v | None \<Rightarrow> IntCol [0]))
             (md_feature_columns md) \<and>
     columns df0 = md_feature_columns md \<and>
     (\<forall>c \<in> set (md_feature_columns md).
        c \<notin> fst ` set input_data \<longrightarrow> map_of df0 c = Some (IntCol [0])) \<and>
     (\<forall>c \<in> set (md_feature_columns md). \<forall>v.
        map_of input_data c = Some v \<longrightarrow> map_of df0 c = Some (column_of_cell v)) \<and>
     encode_input env input_data md = Inr df \<and>
     df = fold (encode_with (float_repr env)) (md_label_encoders md) df0 \<and>
     columns df = md_feature_columns md \<and>
     (distinct (md_feature_columns md) \<and> distinct (map fst (md_label_encoders md)) \<longrightarrow>
        df = map (\<lambda>(c, v). (c, case map_of (md_label_encoders md) c of
                     Some le \<Rightarrow> transform_or_sentinel (float_repr env) le v
                   | None \<Rightarrow> v)) df0) \<and>
     preprocess_input env input_data md = scaler_transform env (md_scaler md) df"
proof -
  let ?sel = "map (\<lambda>c. (c, case map_of input_data c of
                           Some v \<Rightarrow> column_of_cell v | None \<Rightarrow> IntCol [0]))
                (md_feature_columns md)"
  let ?df = "fold (encode_with (float_repr env)) (md_label_encoders md) ?sel"
  have sel: "map (\<lambda>c. (c, case map_of (DataFrame input_data) c of
                          Some v \<Rightarrow> v | None \<Rightarrow> IntCol [0])) (md_feature_columns md) = ?sel"
    by (intro map_cong) (auto simp: map_of_DataFrame split: option.splits)
  have 1: "select_features input_data (md_feature_columns md) = Inr ?sel"
    using select_features_eq [of input_data "md_feature_columns md"] by (simp only: sel)
  have 2: "columns ?sel = md_feature_columns md" by (simp add: columns_def comp_def)
  have 3: "map_of ?sel c = Some (IntCol [0])"
    if "c \<in> set (md_feature_columns md)" "c \<notin> fst ` set input_data" for c
  proof -
    have "map_of input_data c = None" using that(2) by (simp add: map_of_eq_None_iff)
    then show ?thesis using that(1) by (simp add: map_of_map_restrict)
  qed
  have present: "map_of ?sel c = Some (column_of_cell v)"
    if "c \<in> set (md_feature_columns md)" "map_of input_data c = Some v" for c v
    using that by (simp add: map_of_map_restrict)
  have 4: "encode_input env input_data md = Inr ?df"
    by (simp add: encode_input_def 1 bind_err_def)
  have 5: "columns ?df = md_feature_columns md"
    by (simp only: encode_with_fold_columns 2)
  have 6: "preprocess_input env input_data md = scaler_transform env (md_scaler md) ?df"
    by (simp add: preprocess_input_eq 4)
  have 7: "?df = map (\<lambda>(c, v). (c, case map_of (md_label_encoders md) c of
                     Some le \<Rightarrow> transform_or_sentinel (float_repr env) le v
                   | None \<Rightarrow> v)) ?sel"
    if "distinct (md_feature_columns md) \<and> distinct (map fst (md_label_encoders md))"
  proof -
    have "map fst ?sel = md_feature_columns md" by (simp add: comp_def)
    then have d: "distinct (map fst ?sel)" using that by simp
    show ?thesis using that by (intro encode_with_fold [OF d]) simp
  qed
  have "select_features input_data (md_feature_columns md) = Inr ?sel \<and>
     ?sel = ?sel \<and>
     columns ?sel = md_feature_columns md \<and>
     (\<forall>c \<in> set (md_feature_columns md).
        c \<notin> fst ` set input_data \<longrightarrow> map_of ?sel c = Some (IntCol [0])) \<and>
     (\<forall>c \<in> set (md_feature_columns md). \<forall>v.
        map_of input_data c = Some v \<longrightarrow> map_of ?sel c = Some (column_of_cell v)) \<and>
     encode_input env input_data md = Inr ?df \<and>
     ?df = ?df \<and>
     columns ?df = md_feature_columns md \<and>
     (distinct (md_feature_columns md) \<and> distinct (map fst (md_label_encoders md)) \<longrightarrow>
        ?df = map (\<lambda>(c, v). (c, case map_of (md_label_encoders md) c of
                     Some le \<Rightarrow> transform_or_sentinel (float_repr env) le v
                   | None \<Rightarrow> v)) ?sel) \<and>
     preprocess_input env input_data md = scaler_transform env (md_scaler md) ?df"
    using 1 2 3 present 4 5 6 7 by (intro conjI ballI allI impI refl) auto
  then show ?thesis
    apply -
    apply (rule exI [of _ ?sel], rule exI [of _ ?df])
    apply assumption
    done
qed

lemma apply_encoder_unseen:
  assumes "i < length (astype_str fr vals)" "astype_str fr vals ! i \<notin> set (le_classes le)"
  shows "\<exists>codes. apply_encoder fr le vals = IntCol codes \<and>
           length codes = length (astype_str fr vals) \<and> codes ! i = - 1"
  using assms by (simp add: apply_encoder_def)

text \<open>
  Claim C3. A value outside the vocabulary of its column's encoder is encoded as \<open>-1\<close>, and
  the encoding raises nothing: in the server the frame handed to the scaler holds \<open>[-1]\<close> in
  that column; in the trainer's \<open>fit=False\<close> path the column holds \<open>-1\<close> at the row of the
  unseen value. In both, the result of the operation is what the scaler answers on that frame.
\<close>
theorem unseen_value_encodes_to_sentinel:
  assumes "distinct (md_feature_columns md)"
    and "distinct (map fst (md_label_encoders md))"
    and "col \<in> set (md_feature_columns md)"
    and "map_of (md_label_encoders md) col = Some encoder"
    and "map_of input_data col = Some v"
    and "\<forall>x \<in> set (astype_str (float_repr env) (column_of_cell v)). x \<notin> set (le_classes encoder)"
    and "distinct (columns df)"
    and "map_of (fst (split_target self df)) tcol = Some vals"
    and "is_categorical vals"
    and "map_of (label_encoders self) tcol = Some le"
    and "i < length (astype_str (float_repr env) vals)"
    and "astype_str (float_repr env) vals ! i \<notin> set (le_classes le)"
  shows "(\<exists>enc. encode_input env input_data md = Inr enc \<and>
            map_of enc col = Some (IntCol [- 1]) \<and>
            preprocess_input env input_data md = scaler_transform env (md_scaler md) enc) \<and>
         (\<exists>X codes. encode_features env self (fst (split_target self df)) False = (self, X) \<and>
            map_of X tcol = Some (IntCol codes) \<and>
            length codes = length (astype_str (float_repr env) vals) \<and>
            codes ! i = - 1 \<and>
            preprocess env self df False =
              (case scaler_transform env (scaler self) X of
                 Inl e \<Rightarrow> Inl e
               | Inr X_scaled \<Rightarrow> Inr (self, (columns X, X_scaled), snd (split_target self df))))"
proof
  let ?g = "\<lambda>c. let v = (case map_of (DataFrame input_data) c of
                                    Some v \<Rightarrow> v | None \<Rightarrow> IntCol [0])
                        in case map_of (md_label_encoders md) c of
                             Some le \<Rightarrow> transform_or_sentinel (float_repr env) le v
                           | None \<Rightarrow> v"
  let ?enc = "map (\<lambda>c. (c, ?g c)) (md_feature_columns md)"
  have e: "encode_input env input_data md = Inr ?enc"
    by (rule encode_input_eq [OF assms(1,2)])
  obtain x where x: "astype_str (float_repr env) (column_of_cell v) = [x]"
    using astype_str_cell by blast
  with assms(6) have "x \<notin> set (le_classes encoder)" by simp
  then have "transform_or_sentinel (float_repr env) encoder (column_of_cell v) = IntCol [- 1]"
    using x by (rule transform_or_sentinel_unseen [rotated])
  then have "?g col = IntCol [- 1]"
    using assms(4,5) by (simp add: map_of_DataFrame)
  then have "map_of ?enc col = Some (IntCol [- 1])"
    using assms(3) by (simp add: map_of_map_restrict)
  moreover have "preprocess_input env input_data md = scaler_transform env (md_scaler md) ?enc"
    by (simp add: preprocess_input_eq e)
  ultimately show "\<exists>enc. encode_input env input_data md = Inr enc \<and>
            map_of enc col = Some (IntCol [- 1]) \<and>
            preprocess_input env input_data md = scaler_transform env (md_scaler md) enc"
    using e by blast
next
  let ?feat = "fst (split_target self df)"
  let ?h = "\<lambda>c v. if is_categorical v
                  then (case map_of (label_encoders self) c of
                          Some le \<Rightarrow> apply_encoder (float_repr env) le v
                        | None \<Rightarrow> v)
                  else v"
  let ?X = "map (\<lambda>(c, v). (c, ?h c v)) ?feat"
  have d: "distinct (map fst ?feat)"
    using assms(7) by (simp add: columns_def split_target_distinct)
  have ef: "encode_features env self ?feat False = (self, ?X)"
    by (rule encode_features_nofit [OF d])
  obtain codes where c: "apply_encoder (float_repr env) le vals = IntCol codes"
    "length codes = length (astype_str (float_repr env) vals)" "codes ! i = - 1"
    using apply_encoder_unseen [OF assms(11,12)] by blast
  have "map_of ?X tcol = Some (IntCol codes)"
    using assms(8,9,10) c(1) by (simp add: map_of_map_values)
  moreover have "preprocess env self df False =
              (case scaler_transform env (scaler self) ?X of
                 Inl e \<Rightarrow> Inl e
               | Inr X_scaled \<Rightarrow> Inr (self, (columns ?X, X_scaled), snd (split_target self df)))"
    by (simp only: preprocess_nofit ef snd_conv)
  ultimately show "\<exists>X codes. encode_features env self ?feat False = (self, X) \<and>
            map_of X tcol = Some (IntCol codes) \<and>
            length codes = length (astype_str (float_repr env) vals) \<and>
            codes ! i = - 1 \<and>
            preprocess env self df False =
              (case scaler_transform env (scaler self) X of
                 Inl e \<Rightarrow> Inl e
               | Inr X_scaled \<Rightarrow> Inr (self, (columns X, X_scaled), snd (split_target self df)))"
    using ef c(2,3) by blast
qed

text \<open>
  Claim C7. In \<open>preprocess\<close> with \<open>fit=False\<close>, a categorical column that has no encoder
  is left as it is: the frame handed to the scaler holds the raw values of that column, the
  model is unchanged, and no error arises before the scaling step.
\<close>
theorem missing_encoder_passthrough:
  assumes "distinct (columns df)"
    and "map_of (fst (split_target self df)) col = Some vals"
    and "is_categorical vals"
    and "map_of (label_encoders self) col = None"
  shows "\<exists>X. encode_features env self (fst (split_target self df)) False = (self, X) \<and>
           map_of X col = Some vals \<and>
           preprocess env self df False =
             (case scaler_transform env (scaler self) X of
                Inl e \<Rightarrow> Inl e
              | Inr X_scaled \<Rightarrow> Inr (self, (columns X, X_scaled), snd (split_target self df)))"
proof -
  let ?feat = "fst (split_target self df)"
  let ?h = "\<lambda>c v. if is_categorical v
                  then (case map_of (label_encoders self) c of
                          Some le \<Rightarrow> apply_encoder (float_repr env) le v
                        | None \<Rightarrow> v)
                  else v"
  let ?X = "map (\<lambda>(c, v). (c, ?h c v)) ?feat"
  have d: "distinct (map fst ?feat)"
    using assms(1) by (simp add: columns_def split_target_distinct)
  have ef: "encode_features env self ?feat False = (self, ?X)"
    by (rule encode_features_nofit [OF d])
  have "map_of ?X col = Some vals"
    using assms(2,3,4) by (simp add: map_of_map_values)
  moreover have "preprocess env self df False =
              (case scaler_transform env (scaler self) ?X of
                 Inl e \<Rightarrow> Inl e
               | Inr X_scaled \<Rightarrow> Inr (self, (columns ?X, X_scaled), snd (split_target self df)))"
    by (simp only: preprocess_nofit ef snd_conv)
  ultimately show ?thesis using ef by blast
qed

text \<open>
  Claim C2. For a single Observation whose fields match the training schema (the names of
  \<open>feature_columns\<close> in their order, none of them a dropped or target column, and a string
  or boolean in every column that has an encoder), the server's \<open>preprocess_input\<close> and the
  trainer's \<open>preprocess\<close> with \<open>fit=False\<close>, on the same encoders and the same scaler,
  hand the same frame to the scaler and so return the same matrix, or fail alike.
\<close>
theorem train_serve_encodings_agree:
  assumes "map fst input_data = md_feature_columns md"
    and "distinct (map fst input_data)"
    and "set (md_feature_columns md) \<inter> (set drop_cols \<union> {target_column self}) = {}"
    and "distinct (map fst (md_label_encoders md))"
    and "\<forall>(c, v) \<in> set input_data.
           c \<in> fst ` set (md_label_encoders md) \<longrightarrow> is_categorical (column_of_cell v)"
    and "label_encoders self = md_label_encoders md"
    and "scaler self = md_scaler md"
  shows "preprocess_input env input_data md =
         map_sum id (\<lambda>(self', (cols, X_scaled), y). X_scaled)
           (preprocess env self (DataFrame input_data) False)"
proof -
  let ?df = "DataFrame input_data"
  let ?fr = "float_repr env"
  have keys: "map fst ?df = md_feature_columns md"
    using assms(1) by (simp add: DataFrame_def comp_def case_prod_unfold)
  have d: "distinct (map fst ?df)" using assms(1,2) keys by simp
  have dfc: "distinct (md_feature_columns md)" using assms(1,2) by simp
  have sp: "split_target self ?df = (?df, None)"
    using assms(3) keys by (intro split_target_features) simp
  \<comment> \<open>the server's frame\<close>
  have sel: "map (\<lambda>c. (c, case map_of ?df c of Some v \<Rightarrow> v | None \<Rightarrow> IntCol [0]))
               (md_feature_columns md) = ?df"
  proof -
    have "map (\<lambda>c. (c, case map_of ?df c of Some v \<Rightarrow> v | None \<Rightarrow> IntCol [0])) (map fst ?df)
          = map (\<lambda>p. (fst p, snd p)) ?df"
      unfolding map_map
      by (intro map_cong) (auto simp: comp_def map_of_is_SomeI [OF d])
    then show ?thesis by (simp add: keys)
  qed
  have server: "encode_input env input_data md =
      Inr (map (\<lambda>(c, v). (c, case map_of (md_label_encoders md) c of
                          Some le \<Rightarrow> transform_or_sentinel ?fr le v | None \<Rightarrow> v)) ?df)"
    using sel
    by (simp add: encode_input_def select_features_eq bind_err_def
        encode_with_fold [OF d assms(4)])
  \<comment> \<open>the trainer's frame\<close>
  have trainer: "encode_features env self ?df False =
      (self, map (\<lambda>(c, v). (c, if is_categorical v
                  then (case map_of (md_label_encoders md) c of
                          Some le \<Rightarrow> apply_encoder ?fr le v
                        | None \<Rightarrow> v)
                  else v)) ?df)"
    by (rule encode_features_nofit [OF d, of env self, unfolded assms(6)])
  have same: "map (\<lambda>(c, v). (c, case map_of (md_label_encoders md) c of
                          Some le \<Rightarrow> transform_or_sentinel ?fr le v | None \<Rightarrow> v)) ?df =
              map (\<lambda>(c, v). (c, if is_categorical v
                  then (case map_of (md_label_encoders md) c of
                          Some le \<Rightarrow> apply_encoder ?fr le v
                        | None \<Rightarrow> v)
                  else v)) ?df"
  proof (rule map_cong [OF refl])
    fix p assume p: "p \<in> set ?df"
    then obtain c w where cw: "(c, w) \<in> set input_data" "p = (c, column_of_cell w)"
      by (auto simp: DataFrame_def)
    obtain x where x: "astype_str ?fr (column_of_cell w) = [x]"
      using astype_str_cell by blast
    show "(case p of (c, v) \<Rightarrow> (c, case map_of (md_label_encoders md) c of
                          Some le \<Rightarrow> transform_or_sentinel ?fr le v | None \<Rightarrow> v)) =
          (case p of (c, v) \<Rightarrow> (c, if is_categorical v
                  then (case map_of (md_label_encoders md) c of
                          Some le \<Rightarrow> apply_encoder ?fr le v
                        | None \<Rightarrow> v)
                  else v))"
    proof (cases "map_of (md_label_encoders md) c")
      case None
      then show ?thesis using cw by simp
    next
      case (Some le)
      then have "c \<in> fst ` set (md_label_encoders md)" by (rule map_of_in_keys)
      with assms(5) cw(1) have "is_categorical (column_of_cell w)" by auto
      then show ?thesis
        using Some cw transform_or_sentinel_single [OF x] by simp
    qed
  qed
  show ?thesis
    by (simp add: preprocess_input_eq server same preprocess_nofit sp trainer assms(7)
        split: sum.splits)
qed

subsection \<open>Evaluating the model\<close>

lemmas frame_defs = split_target_def drop_columns_def columns_def drop_cols_def
  select_dtypes_object_bool_def select_columns_def DataFrame_def

lemmas trainer_defs = preprocess_def encode_features_def encode_column_def init_model_def
  le_fit_transform_def le_fit_def le_code_def apply_encoder_def load_model_def

lemmas server_defs = preprocess_input_def encode_input_def select_features_def
  ensure_columns_def encode_with_def transform_or_sentinel_def le_transform_def bind_err_def

lemmas demo_defs = demo_libs_def std_fit_def std_transform_def rows_of_def mean_def std_scale_def
  holdout_split_def first_class_fit_def first_class_hits_def

lemma purple_request_scaled:
  "preprocess_input demo_libs purple_request demo_artifact = Inr [[1, 1, - 3, 1, - 1]]"
  by (simp add: frame_defs server_defs demo_defs le_code_def purple_request_def demo_artifact_def
      str_of_bool_def)

theorem train_serve_encodings_agree_witness:
  "preprocess_input demo_libs purple_request demo_artifact =
     map_sum id (\<lambda>(self', (cols, X_scaled), y). X_scaled)
       (preprocess demo_libs loaded_model (DataFrame purple_request) False) \<and>
   preprocess_input demo_libs purple_request demo_artifact = Inr [[1, 1, - 3, 1, - 1]]"
proof -
  have 1: "map fst purple_request = md_feature_columns demo_artifact"
    by (simp add: purple_request_def demo_artifact_def)
  have 2: "distinct (map fst purple_request)" by (simp add: purple_request_def)
  have 3: "set (md_feature_columns demo_artifact)
             \<inter> (set drop_cols \<union> {target_column loaded_model}) = {}"
    by (simp add: demo_artifact_def drop_cols_def loaded_model_def load_model_def init_model_def)
  have 4: "distinct (map fst (md_label_encoders demo_artifact))"
    by (simp add: demo_artifact_def)
  have 5: "\<forall>(c, v) \<in> set purple_request.
             c \<in> fst ` set (md_label_encoders demo_artifact) \<longrightarrow>
             is_categorical (column_of_cell v)"
    by (simp add: purple_request_def demo_artifact_def)
  have 6: "label_encoders loaded_model = md_label_encoders demo_artifact"
    by (simp add: loaded_model_def load_model_def)
  have 7: "scaler loaded_model = md_scaler demo_artifact"
    by (simp add: loaded_model_def load_model_def)
  show ?thesis
    using train_serve_encodings_agree [OF 1 2 3 4 5 6 7, of demo_libs] purple_request_scaled
    by simp
qed

theorem unseen_value_encodes_to_sentinel_witness:
  "(\<exists>enc. encode_input demo_libs purple_request demo_artifact = Inr enc \<and>
      map_of enc ''leaf_color'' = Some (IntCol [- 1]) \<and>
      preprocess_input demo_libs purple_request demo_artifact =
        scaler_transform demo_libs (md_scaler demo_artifact) enc) \<and>
   (\<exists>X codes. encode_features demo_libs loaded_model (fst (split_target loaded_model later_df))
        False = (loaded_model, X) \<and>
      map_of X ''leaf_color'' = Some (IntCol codes) \<and>
      length codes = length (astype_str (float_repr demo_libs) (ObjCol [''Green'', ''Purple''])) \<and>
      codes ! 1 = - 1 \<and>
      preprocess demo_libs loaded_model later_df False =
        (case scaler_transform demo_libs (scaler loaded_model) X of
           Inl e \<Rightarrow> Inl e
         | Inr X_scaled \<Rightarrow>
             Inr (loaded_model, (columns X, X_scaled), snd (split_target loaded_model later_df))))"
proof -
  have 1: "distinct (md_feature_columns demo_artifact)" by (simp add: demo_artifact_def)
  have 2: "distinct (map fst (md_label_encoders demo_artifact))" by (simp add: demo_artifact_def)
  have 3: "''leaf_color'' \<in> set (md_feature_columns demo_artifact)"
    by (simp add: demo_artifact_def)
  have 4: "map_of (md_label_encoders demo_artifact) ''leaf_color'' =
             Some \<lparr>le_classes = [''Green'', ''Yellow'']\<rparr>"
    by (simp add: demo_artifact_def)
  have 5: "map_of purple_request ''leaf_color'' = Some (S ''Purple'')"
    by (simp add: purple_request_def)
  have 6: "\<forall>x \<in> set (astype_str (float_repr demo_libs) (column_of_cell (S ''Purple''))).
             x \<notin> set (le_classes \<lparr>le_classes = [''Green'', ''Yellow'']\<rparr>)"
    by simp
  have 7: "distinct (columns later_df)" by (simp add: later_df_def columns_def)
  have 8: "map_of (fst (split_target loaded_model later_df)) ''leaf_color'' =
             Some (ObjCol [''Green'', ''Purple''])"
    by (simp add: frame_defs later_df_def loaded_model_def load_model_def init_model_def)
  have 9: "is_categorical (ObjCol [''Green'', ''Purple''])" by simp
  have 10: "map_of (label_encoders loaded_model) ''leaf_color'' =
             Some \<lparr>le_classes = [''Green'', ''Yellow'']\<rparr>"
    by (simp add: loaded_model_def load_model_def demo_artifact_def)
  have 11: "1 < length (astype_str (float_repr demo_libs) (ObjCol [''Green'', ''Purple'']))"
    by simp
  have 12: "astype_str (float_repr demo_libs) (ObjCol [''Green'', ''Purple'']) ! 1
              \<notin> set (le_classes \<lparr>le_classes = [''Green'', ''Yellow'']\<rparr>)"
    by simp
  show ?thesis
    by (rule unseen_value_encodes_to_sentinel [OF 1 2 3 4 5 6 7 8 9 10 11 12])
qed

lemma digit_char_0: "str_of_int 0 = ''0''"
  by code_simp

lemma short_request_frames:
  "select_features short_request (md_feature_columns demo_artifact) =
     Inr [(''crop_type'', ObjCol [''Potato'']), (''plant_age_days'', IntCol [40]),
          (''leaf_color'', ObjCol [''Yellow'']), (''lesion_present'', IntCol [0]),
          (''lesion_count'', IntCol [0])]"
  "encode_input demo_libs short_request demo_artifact =
     Inr [(''crop_type'', IntCol [0]), (''plant_age_days'', IntCol [40]),
          (''leaf_color'', IntCol [1]), (''lesion_present'', IntCol [- 1]),
          (''lesion_count'', IntCol [0])]"
  "preprocess_input demo_libs short_request demo_artifact = Inr [[- 1, - 1, 1, - 3, - 5 / 2]]"
  by (simp_all add: frame_defs server_defs demo_defs le_code_def short_request_def
      demo_artifact_def digit_char_0)

theorem missing_columns_zero_and_ordered_witness:
  "''lesion_count'' \<in> set (md_feature_columns demo_artifact) \<and>
   ''lesion_count'' \<notin> fst ` set short_request \<and>
   distinct (md_feature_columns demo_artifact) \<and>
   distinct (map fst (md_label_encoders demo_artifact)) \<and>
   map_of short_request ''leaf_color'' = Some (S ''Yellow'') \<and>
   (\<exists>df0 df.
     select_features short_request (md_feature_columns demo_artifact) = Inr df0 \<and>
     df0 = [(''crop_type'', ObjCol [''Potato'']), (''plant_age_days'', IntCol [40]),
            (''leaf_color'', ObjCol [''Yellow'']), (''lesion_present'', IntCol [0]),
            (''lesion_count'', IntCol [0])] \<and>
     columns df0 = md_feature_columns demo_artifact \<and>
     map_of df0 ''lesion_count'' = Some (IntCol [0]) \<and>
     map_of df0 ''leaf_color'' = Some (column_of_cell (S ''Yellow'')) \<and>
     encode_input demo_libs short_request demo_artifact = Inr df \<and>
     df = [(''crop_type'', IntCol [0]), (''plant_age_days'', IntCol [40]),
           (''leaf_color'', IntCol [1]), (''lesion_present'', IntCol [- 1]),
           (''lesion_count'', IntCol [0])] \<and>
     columns df = md_feature_columns demo_artifact \<and>
     df = map (\<lambda>(c, v). (c, case map_of (md_label_encoders demo_artifact) c of
                  Some le \<Rightarrow> transform_or_sentinel (float_repr demo_libs) le v
                | None \<Rightarrow> v)) df0 \<and>
     preprocess_input demo_libs short_request demo_artifact =
       scaler_transform demo_libs (md_scaler demo_artifact) df \<and>
     preprocess_input demo_libs short_request demo_artifact = Inr [[- 1, - 1, 1, - 3, - 5 / 2]])"
proof -
  have a: "''lesion_count'' \<in> set (md_feature_columns demo_artifact)"
    and a': "''leaf_color'' \<in> set (md_feature_columns demo_artifact)"
    by (simp_all add: demo_artifact_def)
  have b: "''lesion_count'' \<notin> fst ` set short_request"
    by (simp add: short_request_def)
  have c: "distinct (md_feature_columns demo_artifact)"
    "distinct (map fst (md_label_encoders demo_artifact))"
    by (simp_all add: demo_artifact_def)
  have d: "map_of short_request ''leaf_color'' = Some (S ''Yellow'')"
    by (simp add: short_request_def)
  from missing_columns_zero_and_ordered [of short_request demo_artifact demo_libs]
  obtain df0 df where t:
    "select_features short_request (md_feature_columns demo_artifact) = Inr df0"
    "columns df0 = md_feature_columns demo_artifact"
    "\<forall>c \<in> set (md_feature_columns demo_artifact).
        c \<notin> fst ` set short_request \<longrightarrow> map_of df0 c = Some (IntCol [0])"
    "\<forall>c \<in> set (md_feature_columns demo_artifact). \<forall>v.
        map_of short_request c = Some v \<longrightarrow> map_of df0 c = Some (column_of_cell v)"
    "encode_input demo_libs short_request demo_artifact = Inr df"
    "columns df = md_feature_columns demo_artifact"
    "distinct (md_feature_columns demo_artifact) \<and>
       distinct (map fst (md_label_encoders demo_artifact)) \<longrightarrow>
        df = map (\<lambda>(c, v). (c, case map_of (md_label_encoders demo_artifact) c of
                     Some le \<Rightarrow> transform_or_sentinel (float_repr demo_libs) le v
                   | None \<Rightarrow> v)) df0"
    "preprocess_input demo_libs short_request demo_artifact =
       scaler_transform demo_libs (md_scaler demo_artifact) df"
    by blast
  have e0: "df0 = [(''crop_type'', ObjCol [''Potato'']), (''plant_age_days'', IntCol [40]),
            (''leaf_color'', ObjCol [''Yellow'']), (''lesion_present'', IntCol [0]),
            (''lesion_count'', IntCol [0])]"
    using t(1) short_request_frames(1) by simp
  have e1: "df = [(''crop_type'', IntCol [0]), (''plant_age_days'', IntCol [40]),
           (''leaf_color'', IntCol [1]), (''lesion_present'', IntCol [- 1]),
           (''lesion_count'', IntCol [0])]"
    using t(5) short_request_frames(2) by simp
  have m0: "map_of df0 ''lesion_count'' = Some (IntCol [0])" using t(3) a b by blast
  have m1: "map_of df0 ''leaf_color'' = Some (column_of_cell (S ''Yellow''))"
    using t(4) a' d by blast
  have m2: "df = map (\<lambda>(c, v). (c, case map_of (md_label_encoders demo_artifact) c of
                  Some le \<Rightarrow> transform_or_sentinel (float_repr demo_libs) le v
                | None \<Rightarrow> v)) df0"
    using t(7) c by blast
  have "select_features short_request (md_feature_columns demo_artifact) = Inr df0 \<and>
     df0 = [(''crop_type'', ObjCol [''Potato'']), (''plant_age_days'', IntCol [40]),
            (''leaf_color'', ObjCol [''Yellow'']), (''lesion_present'', IntCol [0]),
            (''lesion_count'', IntCol [0])] \<and>
     columns df0 = md_feature_columns demo_artifact \<and>
     map_of df0 ''lesion_count'' = Some (IntCol [0]) \<and>
     map_of df0 ''leaf_color'' = Some (column_of_cell (S ''Yellow'')) \<and>
     encode_input demo_libs short_request demo_artifact = Inr df \<and>
     df = [(''crop_type'', IntCol [0]), (''plant_age_days'', IntCol [40]),
           (''leaf_color'', IntCol [1]), (''lesion_present'', IntCol [- 1]),
           (''lesion_count'', IntCol [0])] \<and>
     columns df = md_feature_columns demo_artifact \<and>
     df = map (\<lambda>(c, v). (c, case map_of (md_label_encoders demo_artifact) c of
                  Some le \<Rightarrow> transform_or_sentinel (float_repr demo_libs) le v
                | None \<Rightarrow> v)) df0 \<and>
     preprocess_input demo_libs short_request demo_artifact =
       scaler_transform demo_libs (md_scaler demo_artifact) df \<and>
     preprocess_input demo_libs short_request demo_artifact = Inr [[- 1, - 1, 1, - 3, - 5 / 2]]"
    by (intro conjI t(1) e0 t(2) m0 m1 t(5) e1 t(6) m2 t(8) short_request_frames(3))
  then have ex: "\<exists>df0 df.
     select_features short_request (md_feature_columns demo_artifact) = Inr df0 \<and>
     df0 = [(''crop_type'', ObjCol [''Potato'']), (''plant_age_days'', IntCol [40]),
            (''leaf_color'', ObjCol [''Yellow'']), (''lesion_present'', IntCol [0]),
            (''lesion_count'', IntCol [0])] \<and>
     columns df0 = md_feature_columns demo_artifact \<and>
     map_of df0 ''lesion_count'' = Some (IntCol [0]) \<and>
     map_of df0 ''leaf_color'' = Some (column_of_cell (S ''Yellow'')) \<and>
     encode_input demo_libs short_request demo_artifact = Inr df \<and>
     df = [(''crop_type'', IntCol [0]), (''plant_age_days'', IntCol [40]),
           (''leaf_color'', IntCol [1]), (''lesion_present'', IntCol [- 1]),
           (''lesion_count'', IntCol [0])] \<and>
     columns df = md_feature_columns demo_artifact \<and>
     df = map (\<lambda>(c, v). (c, case map_of (md_label_encoders demo_artifact) c of
                  Some le \<Rightarrow> transform_or_sentinel (float_repr demo_libs) le v
                | None \<Rightarrow> v)) df0 \<and>
     preprocess_input demo_libs short_request demo_artifact =
       scaler_transform demo_libs (md_scaler demo_artifact) df \<and>
     preprocess_input demo_libs short_request demo_artifact = Inr [[- 1, - 1, 1, - 3, - 5 / 2]]"
    apply -
    apply (rule exI [of _ df0], rule exI [of _ df])
    apply assumption
    done
  show ?thesis by (intro conjI a b c d ex)
qed

theorem missing_encoder_passthrough_witness:
  "\<exists>X. encode_features demo_libs loaded_model (fst (split_target loaded_model later_df)) False
          = (loaded_model, X) \<and>
       map_of X ''location_region'' = Some (ObjCol [''North'', ''East'']) \<and>
       preprocess demo_libs loaded_model later_df False =
         (case scaler_transform demo_libs (scaler loaded_model) X of
            Inl e \<Rightarrow> Inl e
          | Inr X_scaled \<Rightarrow>
              Inr (loaded_model, (columns X, X_scaled), snd (split_target loaded_model later_df)))"
proof -
  have 1: "distinct (columns later_df)" by (simp add: later_df_def columns_def)
  have 2: "map_of (fst (split_target loaded_model later_df)) ''location_region'' =
             Some (ObjCol [''North'', ''East''])"
    by (simp add: frame_defs later_df_def loaded_model_def load_model_def init_model_def)
  have 3: "is_categorical (ObjCol [''North'', ''East''])" by simp
  have 4: "map_of (label_encoders loaded_model) ''location_region'' = None"
    by (simp add: loaded_model_def load_model_def demo_artifact_def)
  show ?thesis by (rule missing_encoder_passthrough [OF 1 2 3 4])
qed

text \<open>
  Claim C8. While the artifact is not loaded, \<open>predict_disease\<close> and \<open>get_diseases\<close> fail
  with the error raised for an unavailable model (an \<open>HTTPException\<close> with the detail
  \<open>Model not loaded\<close>, sent with status 500), whatever the libraries and the request are: no
  prediction is made.
\<close>
theorem model_not_loaded_fails:
  "predict_disease env None treatments input_data = Inl (HTTPException 500 ''Model not loaded'') \<and>
   get_diseases env None = Inl (HTTPException 500 ''Model not loaded'')"
  by (simp add: predict_disease_def get_diseases_def)

text \<open>
  Claim C10. A generated sample whose disease label is \<open>Healthy\<close> has \<open>lesion_present\<close>
  false, \<open>lesion_count\<close> 0, \<open>spot_size_mm\<close> 0.0 and the severity \<open>None\<close>.
\<close>
theorem healthy_sample_has_no_lesions:
  assumes "label_disease (generate_sample n r) = ''Healthy''"
  shows "\<not> lesion_present (generate_sample n r) \<and>
         lesion_count (generate_sample n r) = 0 \<and>
         spot_size_mm (generate_sample n r) = 0 \<and>
         severity (generate_sample n r) = ''None''"
  using assms by (simp add: generate_sample_def Let_def split: prod.splits if_splits)

theorem healthy_sample_has_no_lesions_witness:
  "label_disease (generate_sample 1 healthy_draws) = ''Healthy'' \<and>
   \<not> lesion_present (generate_sample 1 healthy_draws) \<and>
   lesion_count (generate_sample 1 healthy_draws) = 0 \<and>
   spot_size_mm (generate_sample 1 healthy_draws) = 0 \<and>
   severity (generate_sample 1 healthy_draws) = ''None''"
proof -
  have h: "label_disease (generate_sample 1 healthy_draws) = ''Healthy''"
    by (simp add: generate_sample_def healthy_draws_def choice_def CROPS_DISEASES_def Let_def)
  show ?thesis using h healthy_sample_has_no_lesions [OF h] by simp
qed

subsection \<open>The fitting path\<close>

lemma encode_features_fit_encoder:
  assumes "distinct (map fst X)" "map_of X col = Some vals" "is_categorical vals"
  shows "map_of (label_encoders (fst (encode_features env self X True))) col =
           Some (le_fit (astype_str (float_repr env) vals))"
proof -
  have in_X: "(col, vals) \<in> set X" using assms(2) by (rule map_of_SomeD)
  then have c: "col \<in> set (select_dtypes_object_bool X)"
    using categorical_names [OF assms(1)] assms(3) by blast
  have k: "col \<in> fst ` set X" using assms(2) by (rule map_of_in_keys)
  show ?thesis
    using encode_column_fit_encoders [OF assms(1) categorical_names_distinct [OF assms(1)],
        of env "self\<lparr>feature_columns := Some (columns X)\<rparr>" col] c k assms(2)
    by (simp add: encode_features_def)
qed

lemma encode_features_fit_fields:
  "feature_columns (fst (encode_features env self X True)) = Some (columns X) \<and>
   scaler (fst (encode_features env self X True)) = scaler self \<and>
   model (fst (encode_features env self X True)) = model self"
  using encode_column_fit_fields
    [of env "select_dtypes_object_bool X" "self\<lparr>feature_columns := Some (columns X)\<rparr>" X]
  by (simp add: encode_features_def)

lemma encode_features_fit_frame:
  assumes "distinct (map fst X)"
  shows "snd (encode_features env self X True) =
     map (\<lambda>(c, v). (c, if is_categorical v
            then IntCol (snd (le_fit_transform (astype_str (float_repr env) v))) else v)) X"
proof -
  have "map (\<lambda>(c, v). (c, if c \<in> set (select_dtypes_object_bool X)
            then IntCol (snd (le_fit_transform (astype_str (float_repr env) v))) else v)) X =
        map (\<lambda>(c, v). (c, if is_categorical v
            then IntCol (snd (le_fit_transform (astype_str (float_repr env) v))) else v)) X"
    using categorical_names [OF assms] by (intro map_cong) auto
  then show ?thesis
    using encode_column_fit_frame [OF assms categorical_names_distinct [OF assms], of env]
    by (simp add: encode_features_def)
qed

lemma preprocess_fit_result:
  assumes "preprocess env self df True = Inr (self', Xs, y)"
  shows "label_encoders self' =
           label_encoders (fst (encode_features env self (fst (split_target self df)) True)) \<and>
         feature_columns self' = Some (columns (fst (split_target self df))) \<and>
         scaler_fit env (scaler self)
           (snd (encode_features env self (fst (split_target self df)) True)) = Inr (scaler self') \<and>
         model self' = model self \<and>
         y = snd (split_target self df)"
proof -
  obtain X0 y0 where sp: "split_target self df = (X0, y0)" by (cases "split_target self df")
  obtain s2 X where en: "encode_features env self X0 True = (s2, X)"
    by (cases "encode_features env self X0 True")
  have f: "feature_columns s2 = Some (columns X0)" "scaler s2 = scaler self" "model s2 = model self"
    using encode_features_fit_fields [of env self X0] en by simp_all
  from assms sp en obtain sc where sc: "scaler_fit env (scaler s2) X = Inr sc"
    "self' = s2\<lparr>scaler := sc\<rparr>" "y = y0"
    by (auto simp: preprocess_def split: sum.splits)
  then show ?thesis using sp en f by simp
qed

lemma main_fitted:
  assumes "main env df = Inr r"
  shows "\<exists>self' Xs y m. preprocess env (init_model env) df True = Inr (self', Xs, y) \<and>
           fitted r = self'\<lparr>model := Some m\<rparr>"
proof -
  from assms obtain self' cols X y where
    p: "preprocess env (init_model env) df True = Inr (self', (cols, X), y)"
    by (cases "preprocess env (init_model env) df True") (auto simp: main_def bind_err_def)
  from assms p obtain tr te where
    s: "train_test_split env (length X) (map_option column_cells y) = Inr (tr, te)"
    by (cases "train_test_split env (length X) (map_option column_cells y)")
       (auto simp: main_def bind_err_def)
  from assms p s obtain m where "fitted r = self'\<lparr>model := Some m\<rparr>"
    by (auto simp: main_def bind_err_def train_def Let_def split: sum.splits)
  with p show ?thesis by blast
qed

lemma main_vocabulary:
  assumes "main env df = Inr r"
    and "distinct (columns df)"
    and "map_of (fst (split_target (init_model env) df)) col = Some vals"
    and "is_categorical vals"
  shows "map_of (label_encoders (fitted r)) col = Some (le_fit (astype_str (float_repr env) vals))"
proof -
  obtain self' Xs y m where p: "preprocess env (init_model env) df True = Inr (self', Xs, y)"
    and f: "fitted r = self'\<lparr>model := Some m\<rparr>"
    using main_fitted [OF assms(1)] by blast
  have d: "distinct (map fst (fst (split_target (init_model env) df)))"
    using assms(2) by (simp add: columns_def split_target_distinct)
  show ?thesis
    using preprocess_fit_result [OF p] f encode_features_fit_encoder [OF d assms(3,4)]
    by simp
qed

text \<open>
  Claim C4. After \<open>preprocess\<close> with \<open>fit=True\<close>, every categorical feature column has an
  encoder whose vocabulary is the strictly sorted list of the \<open>k\<close> distinct values of the
  column, and the value at place \<open>i\<close> of the vocabulary is encoded as \<open>i\<close>, for
  \<open>i = 0..k-1\<close>.
\<close>
theorem fit_assigns_sorted_codes:
  assumes "preprocess env self df True = Inr (self', Xs, y)"
    and "distinct (columns df)"
    and "map_of (fst (split_target self df)) col = Some vals"
    and "is_categorical vals"
  shows "\<exists>le. map_of (label_encoders self') col = Some le \<and>
           sorted_wrt (<) (le_classes le) \<and>
           set (le_classes le) = set (astype_str (float_repr env) vals) \<and>
           length (le_classes le) = card (set (astype_str (float_repr env) vals)) \<and>
           (\<forall>i < length (le_classes le). le_transform le [le_classes le ! i] = Inr [int i])"
proof -
  let ?le = "le_fit (astype_str (float_repr env) vals)"
  have d: "distinct (map fst (fst (split_target self df)))"
    using assms(2) by (simp add: columns_def split_target_distinct)
  have "map_of (label_encoders self') col = Some ?le"
    using preprocess_fit_result [OF assms(1)] encode_features_fit_encoder [OF d assms(3,4)]
    by simp
  moreover have "\<forall>i < length (le_classes ?le). le_transform ?le [le_classes ?le ! i] = Inr [int i]"
    by (simp add: le_transform_nth le_fit_distinct)
  ultimately show ?thesis
    using le_fit_sorted le_fit_set le_fit_length by blast
qed

text \<open>
  Claim C5. For a value present in a column's training data, encoding it with the fitted
  encoder and looking the code up in reverse gives the value back; the fitted encoding is a
  bijection between the training vocabulary and \<open>0..k-1\<close>.
\<close>
theorem fitted_encoding_round_trip:
  assumes "preprocess env self df True = Inr (self', Xs, y)"
    and "distinct (columns df)"
    and "map_of (fst (split_target self df)) col = Some vals"
    and "is_categorical vals"
    and "v \<in> set (astype_str (float_repr env) vals)"
  shows "\<exists>le. map_of (label_encoders self') col = Some le \<and>
           bind_err (le_transform le [v]) (le_inverse_transform le) = Inr [v] \<and>
           bij_betw (le_code le) (set (astype_str (float_repr env) vals))
             {0..<int (card (set (astype_str (float_repr env) vals)))}"
proof -
  let ?le = "le_fit (astype_str (float_repr env) vals)"
  have d: "distinct (map fst (fst (split_target self df)))"
    using assms(2) by (simp add: columns_def split_target_distinct)
  have "map_of (label_encoders self') col = Some ?le"
    using preprocess_fit_result [OF assms(1)] encode_features_fit_encoder [OF d assms(3,4)]
    by simp
  moreover have "bind_err (le_transform ?le [v]) (le_inverse_transform ?le) = Inr [v]"
    using assms(5) by (intro le_round_trip) (simp add: le_fit_set)
  ultimately show ?thesis using le_code_bij by blast
qed

lemma preprocess_fit_matrix:
  assumes "preprocess env self df True = Inr (self', (cols, X), y)"
  shows "scaler_transform env (scaler self')
           (snd (encode_features env self (fst (split_target self df)) True)) = Inr X \<and>
         cols = columns (snd (encode_features env self (fst (split_target self df)) True))"
proof -
  obtain X0 y0 where sp: "split_target self df = (X0, y0)" by (cases "split_target self df")
  obtain s2 E where en: "encode_features env self X0 True = (s2, E)"
    by (cases "encode_features env self X0 True")
  from assms sp en show ?thesis
    by (auto simp: preprocess_def split: sum.splits)
qed

lemma main_steps:
  assumes "main env df = Inr r"
  shows "\<exists>self' cols X y train_idx test_idx m.
      preprocess env (init_model env) df True = Inr (self', (cols, X), y) \<and>
      train_test_split env (length X) (map_option column_cells y) = Inr (train_idx, test_idx) \<and>
      grid_search_fit env (take_rows X train_idx)
        (map_option (\<lambda>ys. take_rows ys train_idx) (map_option column_cells y)) = Inr m \<and>
      evaluate_metrics env m (take_rows X test_idx)
        (map_option (\<lambda>ys. take_rows ys test_idx) (map_option column_cells y)) = Inr (metrics r) \<and>
      fitted r = self'\<lparr>model := Some m\<rparr> \<and>
      train_samples r = length train_idx \<and>
      test_samples r = length test_idx"
proof -
  from assms obtain self' cols X y where
    p: "preprocess env (init_model env) df True = Inr (self', (cols, X), y)"
    by (cases "preprocess env (init_model env) df True") (auto simp: main_def bind_err_def)
  let ?labels = "map_option column_cells y"
  from assms p obtain tr te where
    s: "train_test_split env (length X) ?labels = Inr (tr, te)"
    by (cases "train_test_split env (length X) ?labels") (auto simp: main_def bind_err_def)
  from assms p s obtain m where
    g: "grid_search_fit env (take_rows X tr) (map_option (\<lambda>ys. take_rows ys tr) ?labels) = Inr m"
    by (cases "grid_search_fit env (take_rows X tr) (map_option (\<lambda>ys. take_rows ys tr) ?labels)")
       (auto simp: main_def bind_err_def train_def Let_def)
  from assms p s g obtain ms where
    e: "evaluate_metrics env m (take_rows X te)
          (map_option (\<lambda>ys. take_rows ys te) ?labels) = Inr ms"
    by (cases "evaluate_metrics env m (take_rows X te) (map_option (\<lambda>ys. take_rows ys te) ?labels)")
       (auto simp: main_def bind_err_def train_def evaluate_def Let_def)
  have r: "r = \<lparr>fitted = self'\<lparr>model := Some m\<rparr>, metrics = ms,
                 train_samples = length (take_rows X tr),
                 test_samples = length (take_rows X te)\<rparr>"
    using assms p s g e by (simp add: main_def bind_err_def train_def evaluate_def Let_def)
  have "preprocess env (init_model env) df True = Inr (self', (cols, X), y) \<and>
      train_test_split env (length X) ?labels = Inr (tr, te) \<and>
      grid_search_fit env (take_rows X tr) (map_option (\<lambda>ys. take_rows ys tr) ?labels) = Inr m \<and>
      evaluate_metrics env m (take_rows X te)
        (map_option (\<lambda>ys. take_rows ys te) ?labels) = Inr (metrics r) \<and>
      fitted r = self'\<lparr>model := Some m\<rparr> \<and>
      train_samples r = length tr \<and>
      test_samples r = length te"
    using p s g e r by (simp add: take_rows_def)
  then show ?thesis
    apply -
    apply (rule exI [of _ self'], rule exI [of _ cols], rule exI [of _ X], rule exI [of _ y],
           rule exI [of _ tr], rule exI [of _ te], rule exI [of _ m])
    apply assumption
    done
qed

text \<open>
  Claim C1, as amended. A training run fits the Feature Pipeline on all the rows of the
  loaded dataset, before the split: the scaler is fitted on the whole encoded frame, the
  feature columns are those of the whole frame, and the vocabulary of every categorical
  feature column is that of the whole column. The stratified split is then applied to the
  matrix the fitted scaler gives for the whole frame; the classifier is fitted on the train
  rows of that matrix and evaluated on its test rows. So the value of every held-out row is in
  the fitted vocabulary.
\<close>
theorem pipeline_fitted_on_all_rows:
  assumes "main env df = Inr r"
    and "distinct (columns df)"
    and "map_of (fst (split_target (init_model env) df)) col = Some vals"
    and "is_categorical vals"
  shows "\<exists>self' cols X y train_idx test_idx m.
      preprocess env (init_model env) df True = Inr (self', (cols, X), y) \<and>
      scaler_fit env (StandardScaler env)
        (snd (encode_features env (init_model env) (fst (split_target (init_model env) df)) True))
        = Inr (scaler (fitted r)) \<and>
      scaler_transform env (scaler (fitted r))
        (snd (encode_features env (init_model env) (fst (split_target (init_model env) df)) True))
        = Inr X \<and>
      train_test_split env (length X) (map_option column_cells y) = Inr (train_idx, test_idx) \<and>
      grid_search_fit env (take_rows X train_idx)
        (map_option (\<lambda>ys. take_rows ys train_idx) (map_option column_cells y)) = Inr m \<and>
      evaluate_metrics env m (take_rows X test_idx)
        (map_option (\<lambda>ys. take_rows ys test_idx) (map_option column_cells y)) = Inr (metrics r) \<and>
      fitted r = self'\<lparr>model := Some m\<rparr> \<and>
      train_samples r = length train_idx \<and>
      test_samples r = length test_idx \<and>
      feature_columns (fitted r) = Some (columns (fst (split_target (init_model env) df))) \<and>
      fitted_vocabulary (main env df) col =
        Some (sort (remdups (astype_str (float_repr env) vals))) \<and>
      (\<forall>i \<in> set test_idx. i < length (astype_str (float_repr env) vals) \<longrightarrow>
         (\<exists>voc. fitted_vocabulary (main env df) col = Some voc \<and>
                astype_str (float_repr env) vals ! i \<in> set voc))"
proof -
  obtain self' cols X y tr te m where
    p: "preprocess env (init_model env) df True = Inr (self', (cols, X), y)"
    and s: "train_test_split env (length X) (map_option column_cells y) = Inr (tr, te)"
    and g: "grid_search_fit env (take_rows X tr)
        (map_option (\<lambda>ys. take_rows ys tr) (map_option column_cells y)) = Inr m"
    and e: "evaluate_metrics env m (take_rows X te)
        (map_option (\<lambda>ys. take_rows ys te) (map_option column_cells y)) = Inr (metrics r)"
    and f: "fitted r = self'\<lparr>model := Some m\<rparr>"
    and n: "train_samples r = length tr" "test_samples r = length te"
    using main_steps [OF assms(1)] by blast
  let ?enc = "snd (encode_features env (init_model env)
                    (fst (split_target (init_model env) df)) True)"
  let ?strs = "astype_str (float_repr env) vals"
  have sf: "scaler_fit env (StandardScaler env) ?enc = Inr (scaler (fitted r))"
    using preprocess_fit_result [OF p] f by (simp add: init_model_def)
  have st: "scaler_transform env (scaler (fitted r)) ?enc = Inr X"
    using preprocess_fit_matrix [OF p] f by simp
  have fc: "feature_columns (fitted r) = Some (columns (fst (split_target (init_model env) df)))"
    using preprocess_fit_result [OF p] f by simp
  have voc: "fitted_vocabulary (main env df) col = Some (sort (remdups ?strs))"
    using main_vocabulary [OF assms] assms(1) by (simp add: fitted_vocabulary_def le_fit_def)
  have held: "\<forall>i \<in> set te. i < length ?strs \<longrightarrow>
         (\<exists>voc. fitted_vocabulary (main env df) col = Some voc \<and> ?strs ! i \<in> set voc)"
    using voc by simp
  have "preprocess env (init_model env) df True = Inr (self', (cols, X), y) \<and>
      scaler_fit env (StandardScaler env) ?enc = Inr (scaler (fitted r)) \<and>
      scaler_transform env (scaler (fitted r)) ?enc = Inr X \<and>
      train_test_split env (length X) (map_option column_cells y) = Inr (tr, te) \<and>
      grid_search_fit env (take_rows X tr)
        (map_option (\<lambda>ys. take_rows ys tr) (map_option column_cells y)) = Inr m \<and>
      evaluate_metrics env m (take_rows X te)
        (map_option (\<lambda>ys. take_rows ys te) (map_option column_cells y)) = Inr (metrics r) \<and>
      fitted r = self'\<lparr>model := Some m\<rparr> \<and>
      train_samples r = length tr \<and>
      test_samples r = length te \<and>
      feature_columns (fitted r) = Some (columns (fst (split_target (init_model env) df))) \<and>
      fitted_vocabulary (main env df) col = Some (sort (remdups ?strs)) \<and>
      (\<forall>i \<in> set te. i < length ?strs \<longrightarrow>
         (\<exists>voc. fitted_vocabulary (main env df) col = Some voc \<and> ?strs ! i \<in> set voc))"
    by (intro conjI p sf st s g e f n fc voc held)
  then show ?thesis
    apply -
    apply (rule exI [of _ self'], rule exI [of _ cols], rule exI [of _ X], rule exI [of _ y],
           rule exI [of _ tr], rule exI [of _ te], rule exI [of _ m])
    apply assumption
    done
qed

subsection \<open>Running the instance\<close>

lemma length_astype_str: "length (astype_str fr v) = length (column_cells v)"
  by (cases v) simp_all

lemma those_to_floats:
  assumes "\<forall>(c, col) \<in> set X. \<not> is_categorical col"
  shows "those (map (\<lambda>(c, col). to_floats col) X) = Some (map (\<lambda>(c, col). the (to_floats col)) X)"
  using assms
proof (induction X)
  case Nil
  then show ?case by simp
next
  case (Cons p X)
  obtain c col where p: "p = (c, col)" by (cases p)
  with Cons.prems have "\<not> is_categorical col" by simp
  then obtain xs where "to_floats col = Some xs" by (cases col) simp_all
  with Cons p show ?case by simp
qed

lemma length_to_floats:
  "\<not> is_categorical col \<Longrightarrow> length (the (to_floats col)) = length (column_cells col)"
  by (cases col) simp_all

lemma std_scaler_total:
  assumes "\<forall>(c, col) \<in> set X. \<not> is_categorical col"
    and "X \<noteq> []"
    and "column_cells (snd (hd X)) \<noteq> []"
  shows "\<exists>sc M. std_fit s X = Inr sc \<and> std_transform sc X = Inr M \<and>
           length M = length (column_cells (snd (hd X)))"
proof -
  let ?cols = "map (\<lambda>(c, col). the (to_floats col)) X"
  let ?stats = "map (\<lambda>xs. (mean xs, std_scale xs)) ?cols"
  obtain c col X' where X: "X = (c, col) # X'" using assms(2) by (cases X) auto
  have nc: "\<not> is_categorical col" using assms(1) X by simp
  have th: "those (map (\<lambda>(c, col). to_floats col) X) = Some ?cols"
    by (rule those_to_floats [OF assms(1)])
  have hd_len: "length (the (to_floats col)) = length (column_cells col)"
    by (rule length_to_floats [OF nc])
  have ne: "?cols \<noteq> []" "hd ?cols \<noteq> []"
    using X assms(3) hd_len by auto
  have fit: "std_fit s X = Inr (Some ?stats)"
    using th ne by (simp add: std_fit_def)
  have "\<exists>M. std_transform (Some ?stats) X = Inr M \<and> length M = length (column_cells col)"
    using th hd_len by (simp add: std_transform_def rows_of_def X)
  then show ?thesis using fit X by auto
qed

lemma fit_leaves_numeric:
  assumes "distinct (map fst X)"
  shows "\<forall>(c, col) \<in> set (snd (encode_features env self X True)). \<not> is_categorical col"
  by (auto simp: encode_features_fit_frame [OF assms] split: if_splits)

lemma preprocess_fit_demo:
  assumes "distinct (columns df)"
    and "split_target self df = ((c, col) # X', y)"
    and "column_cells col \<noteq> []"
  shows "\<exists>self' cols M. preprocess demo_libs self df True = Inr (self', (cols, M), y) \<and>
           length M = length (column_cells col)"
proof -
  let ?X0 = "(c, col) # X'"
  have d: "distinct (map fst ?X0)"
    using split_target_distinct [of df self] assms(1,2) by (simp add: columns_def)
  obtain s2 X where en: "encode_features demo_libs self ?X0 True = (s2, X)"
    by (cases "encode_features demo_libs self ?X0 True")
  have X: "X = map (\<lambda>(c, v). (c, if is_categorical v
            then IntCol (snd (le_fit_transform (astype_str (float_repr demo_libs) v))) else v)) ?X0"
    using encode_features_fit_frame [OF d, of demo_libs self] en by simp
  have num: "\<forall>(c, col) \<in> set X. \<not> is_categorical col"
    using fit_leaves_numeric [OF d, of demo_libs self] en by simp
  have ne: "X \<noteq> []" using X by simp
  have len: "length (column_cells (snd (hd X))) = length (column_cells col)"
    using X by (simp add: le_fit_transform_def Let_def length_astype_str)
  obtain sc M where sc: "std_fit (scaler s2) X = Inr sc" "std_transform sc X = Inr M"
    "length M = length (column_cells (snd (hd X)))"
    using std_scaler_total [OF num ne] len assms(3) by fastforce
  have "preprocess demo_libs self df True = Inr (s2\<lparr>scaler := sc\<rparr>, (columns X, M), y)"
    using assms(2) en sc(1,2) by (simp add: preprocess_def demo_libs_def)
  then show ?thesis using sc(3) len by auto
qed

lemma main_demo_succeeds:
  assumes "preprocess demo_libs (init_model demo_libs) df True = Inr (self', (cols, M), Some ycol)"
    and "M \<noteq> []"
  shows "\<exists>r. main demo_libs df = Inr r"
proof -
  let ?train = "filter (\<lambda>i. i mod 5 \<noteq> 4) [0..<length M]"
  let ?test = "filter (\<lambda>i. i mod 5 = 4) [0..<length M]"
  let ?ys = "take_rows (column_cells ycol) ?train"
  have "0 \<in> set ?train" using assms(2) by simp
  then have "?train \<noteq> []" by (metis empty_iff list.set(1))
  then have ys: "?ys \<noteq> []" by (simp add: take_rows_def)
  let ?m = "sort (remdups (map label_of ?ys))"
  have "set ?m \<noteq> {}" using ys by simp
  then obtain k rest where m: "?m = k # rest" by (cases ?m) auto
  have fit: "first_class_fit (take_rows M ?train) (Some ?ys) = Inr ?m"
    using ys by (simp add: first_class_fit_def)
  have ev: "\<exists>n. first_class_hits ?m (take_rows M ?test)
              (Some (take_rows (column_cells ycol) ?test)) = Inr n"
    by (simp add: first_class_hits_def m)
  then obtain n where n: "first_class_hits ?m (take_rows M ?test)
              (Some (take_rows (column_cells ycol) ?test)) = Inr n" by blast
  have "main demo_libs df =
          Inr \<lparr>fitted = self'\<lparr>model := Some ?m\<rparr>, metrics = n,
               train_samples = length (take_rows M ?train),
               test_samples = length (take_rows M ?test)\<rparr>"
    unfolding main_def assms(1)
    using fit n
    by (simp add: bind_err_def demo_libs_def holdout_split_def train_def evaluate_def Let_def)
  then show ?thesis by blast
qed

lemma scenario_fit:
  "\<exists>self' Xs. preprocess demo_libs (init_model demo_libs) scenario_df True =
       Inr (self', Xs, Some (ObjCol [''Healthy'', ''Early_Blight'', ''Healthy'', ''Early_Blight'',
                                   ''Early_Blight'', ''Healthy''])) \<and>
     label_encoders self' = [(''leaf_color'', \<lparr>le_classes = [''Green'', ''Yellow'']\<rparr>)]"
  by (simp add: frame_defs trainer_defs demo_defs scenario_df_def Let_def)

lemma scenario_hypotheses:
  "distinct (columns scenario_df)"
  "map_of (fst (split_target (init_model demo_libs) scenario_df)) ''leaf_color'' =
     Some (ObjCol [''Green'', ''Yellow'', ''Green'', ''Yellow'', ''Yellow'', ''Green''])"
  by (simp_all add: frame_defs init_model_def scenario_df_def)

theorem fit_assigns_sorted_codes_witness:
  "\<exists>self' Xs y.
     preprocess demo_libs (init_model demo_libs) scenario_df True = Inr (self', Xs, y) \<and>
     label_encoders self' = [(''leaf_color'', \<lparr>le_classes = [''Green'', ''Yellow'']\<rparr>)] \<and>
     le_transform \<lparr>le_classes = [''Green'', ''Yellow'']\<rparr> [''Green''] = Inr [0] \<and>
     le_transform \<lparr>le_classes = [''Green'', ''Yellow'']\<rparr> [''Yellow''] = Inr [1] \<and>
     (\<exists>le. map_of (label_encoders self') ''leaf_color'' = Some le \<and>
        sorted_wrt (<) (le_classes le) \<and>
        set (le_classes le) = {''Green'', ''Yellow''} \<and>
        length (le_classes le) = card {''Green'', ''Yellow''} \<and>
        (\<forall>i < length (le_classes le). le_transform le [le_classes le ! i] = Inr [int i]))"
proof -
  obtain self' Xs y where p:
    "preprocess demo_libs (init_model demo_libs) scenario_df True = Inr (self', Xs, y)"
    and e: "label_encoders self' = [(''leaf_color'', \<lparr>le_classes = [''Green'', ''Yellow'']\<rparr>)]"
    using scenario_fit by blast
  have c: "is_categorical (ObjCol [''Green'', ''Yellow'', ''Green'', ''Yellow'', ''Yellow'', ''Green''])"
    by simp
  have s: "set (astype_str (float_repr demo_libs)
             (ObjCol [''Green'', ''Yellow'', ''Green'', ''Yellow'', ''Yellow'', ''Green'']))
           = {''Green'', ''Yellow''}"
    by auto
  have t: "le_transform \<lparr>le_classes = [''Green'', ''Yellow'']\<rparr> [''Green''] = Inr [0]"
    "le_transform \<lparr>le_classes = [''Green'', ''Yellow'']\<rparr> [''Yellow''] = Inr [1]"
    by (simp_all add: le_transform_def le_code_def)
  have m: "\<exists>le. map_of (label_encoders self') ''leaf_color'' = Some le \<and>
        sorted_wrt (<) (le_classes le) \<and>
        set (le_classes le) = {''Green'', ''Yellow''} \<and>
        length (le_classes le) = card {''Green'', ''Yellow''} \<and>
        (\<forall>i < length (le_classes le). le_transform le [le_classes le ! i] = Inr [int i])"
    using fit_assigns_sorted_codes [OF p scenario_hypotheses c] unfolding s .
  have "preprocess demo_libs (init_model demo_libs) scenario_df True = Inr (self', Xs, y) \<and>
     label_encoders self' = [(''leaf_color'', \<lparr>le_classes = [''Green'', ''Yellow'']\<rparr>)] \<and>
     le_transform \<lparr>le_classes = [''Green'', ''Yellow'']\<rparr> [''Green''] = Inr [0] \<and>
     le_transform \<lparr>le_classes = [''Green'', ''Yellow'']\<rparr> [''Yellow''] = Inr [1] \<and>
     (\<exists>le. map_of (label_encoders self') ''leaf_color'' = Some le \<and>
        sorted_wrt (<) (le_classes le) \<and>
        set (le_classes le) = {''Green'', ''Yellow''} \<and>
        length (le_classes le) = card {''Green'', ''Yellow''} \<and>
        (\<forall>i < length (le_classes le). le_transform le [le_classes le ! i] = Inr [int i]))"
    by (intro conjI p e t m)
  then show ?thesis
    apply -
    apply (rule exI [of _ self'], rule exI [of _ Xs], rule exI [of _ y])
    apply assumption
    done
qed

theorem fitted_encoding_round_trip_witness:
  "\<exists>self' Xs y.
     preprocess demo_libs (init_model demo_libs) scenario_df True = Inr (self', Xs, y) \<and>
     (\<exists>le. map_of (label_encoders self') ''leaf_color'' = Some le \<and>
        bind_err (le_transform le [''Yellow'']) (le_inverse_transform le) = Inr [''Yellow''] \<and>
        bij_betw (le_code le) {''Green'', ''Yellow''} {0..<int (card {''Green'', ''Yellow''})})"
proof -
  obtain self' Xs y where p:
    "preprocess demo_libs (init_model demo_libs) scenario_df True = Inr (self', Xs, y)"
    using scenario_fit by blast
  have c: "is_categorical (ObjCol [''Green'', ''Yellow'', ''Green'', ''Yellow'', ''Yellow'', ''Green''])"
    by simp
  have s: "set (astype_str (float_repr demo_libs)
             (ObjCol [''Green'', ''Yellow'', ''Green'', ''Yellow'', ''Yellow'', ''Green'']))
           = {''Green'', ''Yellow''}"
    by auto
  have v: "''Yellow'' \<in> set (astype_str (float_repr demo_libs)
             (ObjCol [''Green'', ''Yellow'', ''Green'', ''Yellow'', ''Yellow'', ''Green'']))"
    by simp
  have m: "\<exists>le. map_of (label_encoders self') ''leaf_color'' = Some le \<and>
        bind_err (le_transform le [''Yellow'']) (le_inverse_transform le) = Inr [''Yellow''] \<and>
        bij_betw (le_code le) {''Green'', ''Yellow''} {0..<int (card {''Green'', ''Yellow''})}"
    using fitted_encoding_round_trip [OF p scenario_hypotheses c v] unfolding s .
  have "preprocess demo_libs (init_model demo_libs) scenario_df True = Inr (self', Xs, y) \<and>
     (\<exists>le. map_of (label_encoders self') ''leaf_color'' = Some le \<and>
        bind_err (le_transform le [''Yellow'']) (le_inverse_transform le) = Inr [''Yellow''] \<and>
        bij_betw (le_code le) {''Green'', ''Yellow''} {0..<int (card {''Green'', ''Yellow''})})"
    by (intro conjI p m)
  then show ?thesis
    apply -
    apply (rule exI [of _ self'], rule exI [of _ Xs], rule exI [of _ y])
    apply assumption
    done
qed

lemma twenty_rows_hypotheses:
  "distinct (columns twenty_rows)"
  "map_of (fst (split_target (init_model demo_libs) twenty_rows)) ''leaf_color'' =
     Some (ObjCol shades)"
  "split_target (init_model demo_libs) twenty_rows =
     ([(''leaf_color'', ObjCol shades),
       (''lesion_count'', IntCol [0, 0, 0, 0, 0, 0, 0, 0, 0, 0, 2, 4, 6, 8, 10, 12, 14, 16, 18, 20])],
      Some (ObjCol twenty_labels))"
  by (simp_all add: frame_defs init_model_def twenty_rows_def)

lemma twenty_rows_run: "\<exists>r. main demo_libs twenty_rows = Inr r"
proof -
  have "column_cells (ObjCol shades) \<noteq> []" by (simp add: shades_def)
  then obtain self' cols M where
    p: "preprocess demo_libs (init_model demo_libs) twenty_rows True =
          Inr (self', (cols, M), Some (ObjCol twenty_labels))"
    and l: "length M = length (column_cells (ObjCol shades))"
    using preprocess_fit_demo [OF twenty_rows_hypotheses(1,3)] by blast
  have "M \<noteq> []" using l by (auto simp: shades_def)
  with p show ?thesis by (rule main_demo_succeeds)
qed

lemma shades_sorted: "sort (remdups shades) = shades"
  by (simp add: shades_def)

lemma twenty_rows_fit:
  "\<exists>self' cols M. preprocess demo_libs (init_model demo_libs) twenty_rows True =
      Inr (self', (cols, M), Some (ObjCol twenty_labels)) \<and> length M = 20"
proof -
  have "column_cells (ObjCol shades) \<noteq> []" by (simp add: shades_def)
  then obtain self' cols M where
    "preprocess demo_libs (init_model demo_libs) twenty_rows True =
          Inr (self', (cols, M), Some (ObjCol twenty_labels))"
    "length M = length (column_cells (ObjCol shades))"
    using preprocess_fit_demo [OF twenty_rows_hypotheses(1,3)] by blast
  then show ?thesis by (auto simp: shades_def)
qed

lemma holdout_twenty:
  "train_test_split demo_libs 20 y =
     Inr ([0, 1, 2, 3, 5, 6, 7, 8, 10, 11, 12, 13, 15, 16, 17, 18], [4, 9, 14, 19])"
  by (simp add: demo_libs_def holdout_split_def upt_rec)

theorem pipeline_fitted_on_all_rows_witness:
  "\<exists>r self' cols X y m.
     main demo_libs twenty_rows = Inr r \<and>
     preprocess demo_libs (init_model demo_libs) twenty_rows True = Inr (self', (cols, X), y) \<and>
     length X = 20 \<and>
     scaler_fit demo_libs (StandardScaler demo_libs)
       (snd (encode_features demo_libs (init_model demo_libs)
              (fst (split_target (init_model demo_libs) twenty_rows)) True))
       = Inr (scaler (fitted r)) \<and>
     scaler_transform demo_libs (scaler (fitted r))
       (snd (encode_features demo_libs (init_model demo_libs)
              (fst (split_target (init_model demo_libs) twenty_rows)) True))
       = Inr X \<and>
     train_test_split demo_libs (length X) (map_option column_cells y) =
       Inr ([0, 1, 2, 3, 5, 6, 7, 8, 10, 11, 12, 13, 15, 16, 17, 18], [4, 9, 14, 19]) \<and>
     fitted r = self'\<lparr>model := Some m\<rparr> \<and>
     train_samples r = 16 \<and>
     test_samples r = 4 \<and>
     fitted_vocabulary (main demo_libs twenty_rows) ''leaf_color'' = Some shades \<and>
     shades ! 19 = ''shade_19'' \<and>
     ''shade_19'' \<in> set shades"
proof -
  obtain r where r: "main demo_libs twenty_rows = Inr r" using twenty_rows_run by blast
  have c: "is_categorical (ObjCol shades)" by simp
  obtain self' cols X y tr te m where
    p: "preprocess demo_libs (init_model demo_libs) twenty_rows True = Inr (self', (cols, X), y)"
    and sf: "scaler_fit demo_libs (StandardScaler demo_libs)
       (snd (encode_features demo_libs (init_model demo_libs)
              (fst (split_target (init_model demo_libs) twenty_rows)) True))
       = Inr (scaler (fitted r))"
    and st: "scaler_transform demo_libs (scaler (fitted r))
       (snd (encode_features demo_libs (init_model demo_libs)
              (fst (split_target (init_model demo_libs) twenty_rows)) True))
       = Inr X"
    and s: "train_test_split demo_libs (length X) (map_option column_cells y) = Inr (tr, te)"
    and f: "fitted r = self'\<lparr>model := Some m\<rparr>"
    and n: "train_samples r = length tr" "test_samples r = length te"
    and v: "fitted_vocabulary (main demo_libs twenty_rows) ''leaf_color'' =
              Some (sort (remdups (astype_str (float_repr demo_libs) (ObjCol shades))))"
    using pipeline_fitted_on_all_rows [OF r twenty_rows_hypotheses(1,2) c] by blast
  have l: "length X = 20" using twenty_rows_fit p by auto
  have s20: "train_test_split demo_libs (length X) (map_option column_cells y) =
       Inr ([0, 1, 2, 3, 5, 6, 7, 8, 10, 11, 12, 13, 15, 16, 17, 18], [4, 9, 14, 19])"
    unfolding l by (rule holdout_twenty)
  have tr: "tr = [0, 1, 2, 3, 5, 6, 7, 8, 10, 11, 12, 13, 15, 16, 17, 18]"
    and te: "te = [4, 9, 14, 19]"
    using s s20 by simp_all
  have n16: "train_samples r = 16" and n4: "test_samples r = 4"
    using n tr te by simp_all
  have v': "fitted_vocabulary (main demo_libs twenty_rows) ''leaf_color'' = Some shades"
    using v by (simp add: shades_sorted)
  have sh: "shades ! 19 = ''shade_19''" "''shade_19'' \<in> set shades"
    by (simp_all add: shades_def)
  have "main demo_libs twenty_rows = Inr r \<and>
     preprocess demo_libs (init_model demo_libs) twenty_rows True = Inr (self', (cols, X), y) \<and>
     length X = 20 \<and>
     scaler_fit demo_libs (StandardScaler demo_libs)
       (snd (encode_features demo_libs (init_model demo_libs)
              (fst (split_target (init_model demo_libs) twenty_rows)) True))
       = Inr (scaler (fitted r)) \<and>
     scaler_transform demo_libs (scaler (fitted r))
       (snd (encode_features demo_libs (init_model demo_libs)
              (fst (split_target (init_model demo_libs) twenty_rows)) True))
       = Inr X \<and>
     train_test_split demo_libs (length X) (map_option column_cells y) =
       Inr ([0, 1, 2, 3, 5, 6, 7, 8, 10, 11, 12, 13, 15, 16, 17, 18], [4, 9, 14, 19]) \<and>
     fitted r = self'\<lparr>model := Some m\<rparr> \<and>
     train_samples r = 16 \<and>
     test_samples r = 4 \<and>
     fitted_vocabulary (main demo_libs twenty_rows) ''leaf_color'' = Some shades \<and>
     shades ! 19 = ''shade_19'' \<and>
     ''shade_19'' \<in> set shades"
    by (intro conjI r p l sf st s20 f n16 n4 v' sh)
  then show ?thesis
    apply -
    apply (rule exI [of _ r], rule exI [of _ self'], rule exI [of _ cols], rule exI [of _ X],
           rule exI [of _ y], rule exI [of _ m])
    apply assumption
    done
qed

text \<open>
  Claim C1, as stated, fails: on twenty rows with twenty leaf colours, of which rows 4, 9, 14
  and 19 are held out, the run fits the vocabulary of all twenty colours, which is not the
  vocabulary of the sixteen rows of the train split.
\<close>
theorem fitted_on_train_split_only_counterexample:
  "train_test_split demo_libs 20 (Some (map S twenty_labels)) =
     Inr ([0, 1, 2, 3, 5, 6, 7, 8, 10, 11, 12, 13, 15, 16, 17, 18], [4, 9, 14, 19]) \<and>
   fitted_vocabulary (main demo_libs twenty_rows) ''leaf_color'' = Some shades \<and>
   le_classes (le_fit (take_rows shades [0, 1, 2, 3, 5, 6, 7, 8, 10, 11, 12, 13, 15, 16, 17, 18]))
     \<noteq> shades"
proof -
  have 1: "train_test_split demo_libs 20 (Some (map S twenty_labels)) =
     Inr ([0, 1, 2, 3, 5, 6, 7, 8, 10, 11, 12, 13, 15, 16, 17, 18], [4, 9, 14, 19])"
    by (simp add: demo_libs_def holdout_split_def upt_rec)
  obtain r where r: "main demo_libs twenty_rows = Inr r" using twenty_rows_run by blast
  have "map_of (label_encoders (fitted r)) ''leaf_color'' =
          Some (le_fit (astype_str (float_repr demo_libs) (ObjCol shades)))"
    using main_vocabulary [OF r twenty_rows_hypotheses(1,2)] by simp
  then have 2: "fitted_vocabulary (main demo_libs twenty_rows) ''leaf_color'' = Some shades"
    using r by (simp add: fitted_vocabulary_def le_fit_def shades_sorted)
  have "length (le_classes (le_fit ys)) \<le> length ys" for ys
    by (simp add: le_fit_def length_remdups_leq)
  moreover have "length (take_rows shades
          [0, 1, 2, 3, 5, 6, 7, 8, 10, 11, 12, 13, 15, 16, 17, 18]) = 16"
    by (simp add: take_rows_def)
  ultimately have "length (le_classes (le_fit
          (take_rows shades [0, 1, 2, 3, 5, 6, 7, 8, 10, 11, 12, 13, 15, 16, 17, 18]))) \<le> 16"
    by metis
  moreover have "length shades = 20" by (simp add: shades_def)
  ultimately have 3: "le_classes (le_fit
      (take_rows shades [0, 1, 2, 3, 5, 6, 7, 8, 10, 11, 12, 13, 15, 16, 17, 18])) \<noteq> shades"
    by auto
  from 1 2 3 show ?thesis by blast
qed

subsection \<open>The augmenter\<close>

lemma set_keys_setitem: "fst ` set (setitem al k v) = insert k (fst ` set al)"
proof -
  have "set (map fst (setitem al k v)) = insert k (set (map fst al))"
    by (simp add: keys_setitem insert_absorb)
  then show ?thesis by simp
qed

lemma keys_setitem_present:
  "k \<in> fst ` set al \<Longrightarrow> map fst (setitem al k v) = map fst al"
  by (simp add: keys_setitem)

lemma holds_key: "holds d k P \<Longrightarrow> k \<in> fst ` set d"
  by (auto simp: holds_def split: option.splits dest: map_of_in_keys)

lemma getnum_clampable: "holds d k is_clampable \<Longrightarrow> \<exists>n. getnum d k = Inr n"
proof -
  assume "holds d k is_clampable"
  then obtain v where v: "map_of d k = Some v" "is_clampable v"
    by (auto simp: holds_def split: option.splits)
  then show ?thesis
    by (cases v) (simp_all add: getnum_def getitem_def bind_err_def)
qed

lemma getnum_number:
  "holds d k is_number \<Longrightarrow> \<exists>n. getnum d k = Inr n \<and> n \<noteq> PNaN"
proof -
  assume "holds d k is_number"
  then obtain v where v: "map_of d k = Some v" "is_number v"
    by (auto simp: holds_def split: option.splits)
  then show ?thesis
    by (cases v) (simp_all add: getnum_def getitem_def bind_err_def)
qed

lemma py_int_of_number: "n \<noteq> PNaN \<Longrightarrow> \<exists>k. py_int_of (add_int n j) = Inr k"
  by (cases n) simp_all

lemma choice_mem: "rows \<noteq> [] \<Longrightarrow> choice rows k \<in> set rows"
  by (simp add: choice_def)

lemma augment_sample_ok:
  assumes "snd df \<noteq> []"
    and "augmentable (zip (fst df) (choice (snd df) (a_base r)))"
    and "''sample_id'' \<in> fst ` set (zip (fst df) (choice (snd df) (a_base r)))"
    and "''timestamp'' \<in> fst ` set (zip (fst df) (choice (snd df) (a_base r)))"
  shows "\<exists>d. augment_sample df i r = Inr d \<and>
           map fst d = map fst (zip (fst df) (choice (snd df) (a_base r)))"
proof -
  let ?b = "zip (fst df) (choice (snd df) (a_base r))"
  have h: "holds ?b ''plant_age_days'' is_number" "holds ?b ''soil_ph'' is_clampable"
    "holds ?b ''soil_moisture_pct'' is_clampable" "holds ?b ''ambient_temperature_c'' is_clampable"
    "holds ?b ''ambient_humidity_pct'' is_clampable"
    and hp: "holds ?b ''lesion_present''
        (\<lambda>present. truthy present \<longrightarrow>
           holds ?b ''lesion_count'' is_number \<and> holds ?b ''spot_size_mm'' is_clampable)"
    using assms(2) by (simp_all add: augmentable_def)
  from hp obtain present where present: "map_of ?b ''lesion_present'' = Some present"
    "truthy present \<longrightarrow>
       holds ?b ''lesion_count'' is_number \<and> holds ?b ''spot_size_mm'' is_clampable"
    by (auto simp: holds_def split: option.splits)
  have k: "''plant_age_days'' \<in> fst ` set ?b" "''soil_ph'' \<in> fst ` set ?b"
    "''soil_moisture_pct'' \<in> fst ` set ?b" "''ambient_temperature_c'' \<in> fst ` set ?b"
    "''ambient_humidity_pct'' \<in> fst ` set ?b"
    using h by (simp_all only: holds_key)
  obtain age where age: "getnum ?b ''plant_age_days'' = Inr age" "age \<noteq> PNaN"
    using getnum_number [OF h(1)] by blast
  obtain age_int where age_int:
    "py_int_of (add_int age (randint (- 10) 10 (a_plant_age r))) = Inr age_int"
    using py_int_of_number [OF age(2)] by blast
  obtain ph where ph: "getnum ?b ''soil_ph'' = Inr ph"
    using getnum_clampable [OF h(2)] by blast
  obtain moisture where moisture: "getnum ?b ''soil_moisture_pct'' = Inr moisture"
    using getnum_clampable [OF h(3)] by blast
  obtain temperature where temperature: "getnum ?b ''ambient_temperature_c'' = Inr temperature"
    using getnum_clampable [OF h(4)] by blast
  obtain humidity where humidity: "getnum ?b ''ambient_humidity_pct'' = Inr humidity"
    using getnum_clampable [OF h(5)] by blast
  have gp: "getitem ?b ''lesion_present'' = Inr present"
    using present(1) by (simp add: getitem_def)
  note eqs = age(1) age_int ph moisture temperature humidity gp
  note keys = set_keys_setitem keys_setitem_present assms(3,4) k
  show ?thesis
  proof (cases "truthy present")
    case False
    then show ?thesis
      using assms(1) by (simp add: augment_sample_def Let_def bind_err_def eqs keys)
  next
    case True
    then have hl: "holds ?b ''lesion_count'' is_number" "holds ?b ''spot_size_mm'' is_clampable"
      using present(2) by simp_all
    have kl: "''lesion_count'' \<in> fst ` set ?b" "''spot_size_mm'' \<in> fst ` set ?b"
      using hl by (simp_all only: holds_key)
    obtain n_lesions where n_lesions: "getnum ?b ''lesion_count'' = Inr n_lesions"
      "n_lesions \<noteq> PNaN"
      using getnum_number [OF hl(1)] by blast
    obtain n_int where n_int:
      "py_int_of (add_int n_lesions (randint (- 3) 3 (a_lesion_count r))) = Inr n_int"
      using py_int_of_number [OF n_lesions(2)] by blast
    obtain spot where spot: "getnum ?b ''spot_size_mm'' = Inr spot"
      using getnum_clampable [OF hl(2)] by blast
    show ?thesis
      using assms(1) True
      by (simp add: augment_sample_def Let_def bind_err_def eqs keys kl n_lesions(1) n_int spot)
  qed
qed

lemma augment_loop_ok:
  assumes "rows \<noteq> []"
    and "\<forall>row \<in> set rows. length row = length cols \<and> augmentable (zip cols row)"
    and "''sample_id'' \<in> set cols"
    and "''timestamp'' \<in> set cols"
  shows "\<exists>ds. augment_loop (cols, rows) draws idx = Inr ds \<and> length ds = length idx \<and>
           (\<forall>d \<in> set ds. map fst d = cols)"
proof (induction idx)
  case Nil
  then show ?case by simp
next
  case (Cons i idx)
  then obtain ds where ds: "augment_loop (cols, rows) draws idx = Inr ds"
    "length ds = length idx" "\<forall>d \<in> set ds. map fst d = cols"
    by blast
  let ?row = "choice rows (a_base (draws i))"
  have row: "length ?row = length cols" "augmentable (zip cols ?row)"
    using assms(1,2) choice_mem by blast+
  have keys: "map fst (zip cols ?row) = cols" using row(1) by simp
  then have ks: "fst ` set (zip cols ?row) = set cols" by (metis set_map)
  obtain d where d: "augment_sample (cols, rows) i (draws i) = Inr d"
    "map fst d = map fst (zip cols ?row)"
    using augment_sample_ok [of "(cols, rows)" "draws i" i] assms(1,3,4) row(2) ks
    by auto
  have "augment_loop (cols, rows) draws (i # idx) = Inr (d # ds)"
    using d(1) ds(1) by (simp add: bind_err_def)
  moreover have "\<forall>x \<in> set (d # ds). map fst x = cols"
    using d(2) keys ds(3) by simp
  ultimately show ?case using ds(2) by auto
qed

lemma row_of_dict_zip:
  assumes "distinct cols" "length row = length cols"
  shows "row_of_dict cols (zip cols row) = row"
proof (rule nth_equalityI)
  show "length (row_of_dict cols (zip cols row)) = length row"
    using assms(2) by (simp add: row_of_dict_def)
next
  fix i assume "i < length (row_of_dict cols (zip cols row))"
  then have i: "i < length cols" by (simp add: row_of_dict_def)
  then have "map_of (zip cols row) (cols ! i) = Some (row ! i)"
    using assms by (simp add: map_of_zip_nth)
  then show "row_of_dict cols (zip cols row) ! i = row ! i"
    using i by (simp add: row_of_dict_def)
qed

lemma concat_frames_same_keys:
  assumes "\<forall>d \<in> set ds. map fst d = cols"
    and "distinct cols"
    and "\<forall>row \<in> set rows. length row = length cols"
  shows "concat_frames (cols, rows) ds = (cols, rows @ map (row_of_dict cols) ds)"
proof -
  have "filter (\<lambda>k. k \<notin> set cols) (concat (map (map fst) ds)) = []"
    using assms(1) by (auto simp: filter_empty_conv)
  moreover have "map (\<lambda>row. row_of_dict cols (zip cols row)) rows = rows"
    using assms(2,3) by (simp add: row_of_dict_zip map_idI)
  ultimately show ?thesis by (simp add: concat_frames_def)
qed

lemma augment_dataset_result:
  assumes "read_csv libs input_file = Inr (cols, rows)"
    and "rows \<noteq> []"
    and "int (length rows) < target_size"
    and "\<forall>row \<in> set rows. length row = length cols \<and> augmentable (zip cols row)"
    and "distinct cols"
    and "''sample_id'' \<in> set cols"
    and "''timestamp'' \<in> set cols"
  shows "\<exists>more. augment_dataset libs input_file target_size draws =
             (Some (to_csv libs (cols, rows @ more)),
              if ''label_disease'' \<in> set cols then None else Some (KeyError ''label_disease'')) \<and>
           int (length more) = target_size - int (length rows)"
proof -
  let ?n = "nat (target_size - int (length rows))"
  obtain ds where ds: "augment_loop (cols, rows) draws [0..<?n] = Inr ds"
    "length ds = length [0..<?n]" "\<forall>d \<in> set ds. map fst d = cols"
    using augment_loop_ok [OF assms(2,4,6,7)] by blast
  have c: "concat_frames (cols, rows) ds = (cols, rows @ map (row_of_dict cols) ds)"
    using assms(4) by (intro concat_frames_same_keys [OF ds(3) assms(5)]) simp
  have "augment_dataset libs input_file target_size draws =
             (Some (to_csv libs (cols, rows @ map (row_of_dict cols) ds)),
              if ''label_disease'' \<in> set cols then None else Some (KeyError ''label_disease''))"
    using assms(1,3) ds(1) c by (simp add: augment_dataset_def Let_def)
  moreover have "int (length (map (row_of_dict cols) ds)) = target_size - int (length rows)"
    using ds(2) assms(3) by simp
  ultimately show ?thesis by blast
qed

text \<open>
  Claim C9, as amended. When the input file is read as a frame of 100 rows that the loop
  can augment, with distinct column names among them \<open>sample_id\<close> and \<open>timestamp\<close>, and
  the target size is 150, a file is written from a frame of exactly 150 rows, and the first
  100 rows of that frame are the 100 rows read, value for value and in the same order.
\<close>
theorem augment_100_to_150:
  assumes "read_csv libs input_file = Inr (cols, rows)"
    and "length rows = 100"
    and "\<forall>row \<in> set rows. length row = length cols \<and> augmentable (zip cols row)"
    and "distinct cols"
    and "''sample_id'' \<in> set cols"
    and "''timestamp'' \<in> set cols"
  shows "\<exists>final_rows err.
           augment_dataset libs input_file 150 draws =
             (Some (to_csv libs (cols, final_rows)), err) \<and>
           length final_rows = 150 \<and> take 100 final_rows = rows"
proof -
  have ne: "rows \<noteq> []" using assms(2) by auto
  have lt: "int (length rows) < 150" using assms(2) by simp
  obtain more where m: "augment_dataset libs input_file 150 draws =
             (Some (to_csv libs (cols, rows @ more)),
              if ''label_disease'' \<in> set cols then None else Some (KeyError ''label_disease''))"
    "int (length more) = 150 - int (length rows)"
    using augment_dataset_result [OF assms(1) ne lt assms(3,4,5,6)] by blast
  have "length (rows @ more) = 150" using m(2) assms(2) by simp
  moreover have "take 100 (rows @ more) = rows" using assms(2) by simp
  ultimately show ?thesis using m(1) by blast
qed

subsection \<open>The generated file through pandas\<close>

lemma infer_column_replicate:
  assumes "0 < n"
  shows "infer_column (replicate n t) = replicate n
     (if is_na t then VNaN
      else case parse_int t of Some k \<Rightarrow> VInt k
           | None \<Rightarrow> (case parse_float t of Some x \<Rightarrow> VFloat x
                     | None \<Rightarrow> (case bool_text t of Some b \<Rightarrow> VBool b | None \<Rightarrow> VStr t)))"
proof (cases "is_na t")
  case True
  then show ?thesis by (simp add: infer_column_def)
next
  case False
  then have p: "filter (\<lambda>t. \<not> is_na t) (replicate n t) = replicate n t" by simp
  have ne: "replicate n t \<noteq> []" using assms by simp
  have la: "list_all P (replicate n t) = P t" for P
    using assms by (auto simp: list_all_iff)
  show ?thesis
    unfolding infer_column_def Let_def p la
    using False ne by (auto split: option.splits)
qed

lemma read_replicate:
  assumes "length l = length h" "0 < n"
  shows "pandas_read_csv \<lparr>csv_header = h, csv_lines = replicate n l\<rparr> =
     Inr (h, replicate n (map (\<lambda>t.
       if is_na t then VNaN
       else case parse_int t of Some k \<Rightarrow> VInt k
            | None \<Rightarrow> (case parse_float t of Some x \<Rightarrow> VFloat x
                      | None \<Rightarrow> (case bool_text t of Some b \<Rightarrow> VBool b | None \<Rightarrow> VStr t))) l))"
proof -
  let ?one = "\<lambda>t. if is_na t then VNaN
       else case parse_int t of Some k \<Rightarrow> VInt k
            | None \<Rightarrow> (case parse_float t of Some x \<Rightarrow> VFloat x
                      | None \<Rightarrow> (case bool_text t of Some b \<Rightarrow> VBool b | None \<Rightarrow> VStr t))"
  have cols: "map (\<lambda>j. infer_column (map (\<lambda>l'. if j < length l' then l' ! j else []) (replicate n l)))
               [0..<length h] = map (\<lambda>j. replicate n (?one (l ! j))) [0..<length h]"
    using assms by (intro map_cong) (simp_all add: infer_column_replicate)
  have rows: "map (\<lambda>i. map (\<lambda>col. col ! i) (map (\<lambda>j. replicate n (?one (l ! j))) [0..<length h]))
               [0..<n] = replicate n (map ?one l)"
  proof -
    have "map (\<lambda>col. col ! i) (map (\<lambda>j. replicate n (?one (l ! j))) [0..<length h]) = map ?one l"
      if "i < n" for i
    proof -
      have "map (\<lambda>col. col ! i) (map (\<lambda>j. replicate n (?one (l ! j))) [0..<length h]) =
            map (\<lambda>j. ?one (l ! j)) [0..<length l]"
        using that assms(1) by (simp add: comp_def)
      also have "\<dots> = map ?one (map (\<lambda>j. l ! j) [0..<length l])" by (simp add: comp_def)
      also have "\<dots> = map ?one l" by (simp only: map_nth)
      finally show ?thesis .
    qed
    then have "map (\<lambda>i. map (\<lambda>col. col ! i) (map (\<lambda>j. replicate n (?one (l ! j))) [0..<length h]))
               [0..<n] = map (\<lambda>i. map ?one l) [0..<n]"
      by (intro map_cong) simp_all
    then show ?thesis by (simp add: map_replicate_const)
  qed
  have ok: "\<not> (\<exists>l' \<in> set (replicate n l). length h < length l')" using assms(1) by simp
  show ?thesis
    unfolding pandas_read_csv_def Let_def csv_file.select_convs
    by (simp only: ok if_False cols length_replicate rows)
qed

lemma healthy_line_fields:
  "length healthy_line = length fieldnames"
  "map (\<lambda>t. if is_na t then VNaN
       else case parse_int t of Some k \<Rightarrow> VInt k
            | None \<Rightarrow> (case parse_float t of Some x \<Rightarrow> VFloat x
                      | None \<Rightarrow> (case bool_text t of Some b \<Rightarrow> VBool b | None \<Rightarrow> VStr t)))
     healthy_line = healthy_row"
  "healthy_line ! 16 = ''None''"
  by code_simp+

lemma read_healthy_file:
  "read_csv pandas_csv healthy_file = Inr (fieldnames, replicate 100 healthy_row)"
  using read_replicate [OF healthy_line_fields(1), of 100]
  by (simp add: pandas_csv_def healthy_file_def healthy_line_fields(2))

lemma healthy_row_augmentable:
  "length healthy_row = length fieldnames"
  "augmentable (zip fieldnames healthy_row)"
  "distinct fieldnames"
  "''sample_id'' \<in> set fieldnames"
  "''timestamp'' \<in> set fieldnames"
  "''label_disease'' \<in> set fieldnames"
  "healthy_row ! 16 = VNaN"
  by (simp_all add: healthy_row_def fieldnames_def augmentable_def holds_def)

lemma healthy_rows_ok:
  "\<forall>row \<in> set (replicate 100 healthy_row).
     length row = length fieldnames \<and> augmentable (zip fieldnames row)"
  using healthy_row_augmentable(1,2) by simp

theorem augment_100_to_150_witness:
  "read_csv pandas_csv healthy_file = Inr (fieldnames, replicate 100 healthy_row) \<and>
   length (replicate 100 healthy_row) = 100 \<and>
   (\<exists>final_rows err.
      augment_dataset pandas_csv healthy_file 150 steady_run =
        (Some (to_csv pandas_csv (fieldnames, final_rows)), err) \<and>
      length final_rows = 150 \<and> take 100 final_rows = replicate 100 healthy_row)"
proof -
  have l: "length (replicate 100 healthy_row) = 100" by simp
  show ?thesis
    using augment_100_to_150 [OF read_healthy_file l healthy_rows_ok
        healthy_row_augmentable(3,4,5), of steady_run] read_healthy_file l
    by (intro conjI)
qed

lemma to_csv_field:
  "i < length rows \<Longrightarrow> j < length cols \<Longrightarrow>
   csv_lines (pandas_to_csv fr (cols, rows)) ! i ! j =
     print_field fr (column_kind (map (\<lambda>r. r ! j) rows)) (rows ! i ! j)"
  by (simp add: pandas_to_csv_def)

text \<open>
  Claim C9, as stated, fails: the first rows written are not byte-identical to the input rows.
  On a generated file of 100 lines, read and written with the defaults of pandas, the run
  writes 150 lines, but the field \<open>severity\<close> of the first line, \<open>None\<close> in the input, is
  read as missing and written as the empty field.
\<close>
theorem first_rows_byte_identical_counterexample:
  "csv_lines healthy_file ! 0 ! 16 = ''None'' \<and>
   written_rows (augment_dataset pandas_csv healthy_file 150 steady_run) = Some 150 \<and>
   written_field (augment_dataset pandas_csv healthy_file 150 steady_run) 0 16 = Some [] \<and>
   map_option (take 100)
     (written_lines (augment_dataset pandas_csv healthy_file 150 steady_run))
     \<noteq> Some (csv_lines healthy_file)"
proof -
  have 1: "csv_lines healthy_file ! 0 ! 16 = ''None''"
    by (simp add: healthy_file_def healthy_line_fields(3))
  have ne: "replicate 100 healthy_row \<noteq> []" by simp
  have lt: "int (length (replicate 100 healthy_row)) < 150" by simp
  obtain more where m:
    "augment_dataset pandas_csv healthy_file 150 steady_run =
       (Some (to_csv pandas_csv (fieldnames, replicate 100 healthy_row @ more)),
        if ''label_disease'' \<in> set fieldnames then None else Some (KeyError ''label_disease''))"
    "int (length more) = 150 - int (length (replicate 100 healthy_row))"
    using augment_dataset_result [OF read_healthy_file ne lt healthy_rows_ok
        healthy_row_augmentable(3,4,5), of steady_run] by blast
  let ?rows = "replicate 100 healthy_row @ more"
  have len: "length ?rows = 150" using m(2) by simp
  have r0: "?rows ! 0 = healthy_row" by (simp add: nth_append)
  have run: "fst (augment_dataset pandas_csv healthy_file 150 steady_run) =
               Some (pandas_to_csv repr_decimal (fieldnames, ?rows))"
    unfolding m(1) by (simp add: pandas_csv_def)
  have 2: "written_rows (augment_dataset pandas_csv healthy_file 150 steady_run) = Some 150"
    unfolding written_rows_def run using len by (simp add: pandas_to_csv_def)
  have f17: "length fieldnames = 17" by (simp add: fieldnames_def)
  have a: "0 < length ?rows" using len by simp
  have b: "16 < length fieldnames" using f17 by simp
  have "csv_lines (pandas_to_csv repr_decimal (fieldnames, ?rows)) ! 0 ! 16 =
          print_field repr_decimal (column_kind (map (\<lambda>r. r ! 16) ?rows)) (?rows ! 0 ! 16)"
    by (rule to_csv_field [OF a b])
  also have "\<dots> = []"
    by (simp only: r0 healthy_row_augmentable(7) print_field.simps)
  finally have 3: "written_field (augment_dataset pandas_csv healthy_file 150 steady_run)
                     0 16 = Some []"
    unfolding written_field_def run by simp
  have 4: "map_option (take 100)
     (written_lines (augment_dataset pandas_csv healthy_file 150 steady_run))
     \<noteq> Some (csv_lines healthy_file)"
  proof
    assume "map_option (take 100)
     (written_lines (augment_dataset pandas_csv healthy_file 150 steady_run))
     = Some (csv_lines healthy_file)"
    then have "take 100 (csv_lines (pandas_to_csv repr_decimal (fieldnames, ?rows))) =
                 csv_lines healthy_file"
      unfolding written_lines_def run by simp
    then have "take 100 (csv_lines (pandas_to_csv repr_decimal (fieldnames, ?rows))) ! 0 ! 16 =
                 csv_lines healthy_file ! 0 ! 16"
      by (simp only:)
    moreover have "take 100 (csv_lines (pandas_to_csv repr_decimal (fieldnames, ?rows))) ! 0 =
                 csv_lines (pandas_to_csv repr_decimal (fieldnames, ?rows)) ! 0"
      by (rule nth_take) simp
    ultimately have "csv_lines (pandas_to_csv repr_decimal (fieldnames, ?rows)) ! 0 ! 16 = ''None''"
      using 1 by (simp only:)
    moreover have "csv_lines (pandas_to_csv repr_decimal (fieldnames, ?rows)) ! 0 ! 16 = []"
      using 3 unfolding written_field_def run by simp
    ultimately show False by simp
  qed
  from 1 2 3 4 show ?thesis by (intro conjI)
qed

text \<open>Rows the loop cannot augment: a missing plant age fails in \<open>int\<close>, a text where a
  number is added fails in the addition, and a frame without the column fails at the key.\<close>

lemma missing_plant_age_fails:
  "augment_sample (fieldnames, [healthy_row[3 := VNaN]]) 0 steady_draws =
     Inl (ValueError ''cannot convert float NaN to integer'')"
  by code_simp

lemma text_soil_ph_fails:
  "augment_sample (fieldnames, [healthy_row[5 := VStr ''acid'']]) 0 steady_draws =
     Inl (TypeError ''can only concatenate str to str'')"
  by code_simp

lemma missing_column_fails:
  "augment_sample ([''sample_id'', ''timestamp''], [[VStr ''SAMPLE_000001'', VNaN]]) 0 steady_draws =
     Inl (KeyError ''plant_age_days'')"
  by code_simp

end
